theory Spec2Isabelle
  imports Main
begin

section \<open>Time: durations and clock readings\<close>

text \<open>
  Go's \<open>time.Duration\<close> is a signed 64-bit count of nanoseconds. Durations and the
  readings of the monotonic clock are integers here, and every place where the source
  computes on them writes the 64-bit behaviour out: \<open>time.Since\<close> saturates
  (as \<open>Time.Sub\<close> does) and the product of two durations wraps around.
\<close>

type_synonym Duration = int

definition Second :: Duration where
  "Second = 1000000000"

definition Minute :: Duration where
  "Minute = 60 * Second"

definition Hour :: Duration where
  "Hour = 60 * Minute"

definition minDuration :: Duration where
  "minDuration = - (2 ^ 63)"

definition maxDuration :: Duration where
  "maxDuration = 2 ^ 63 - 1"

text \<open>The values a variable of type \<open>time.Duration\<close> can hold.\<close>

definition is_Duration :: "int \<Rightarrow> bool" where
  "is_Duration d = (minDuration \<le> d \<and> d \<le> maxDuration)"

text \<open>The value of a 64-bit signed computation whose exact result is \<open>x\<close>.\<close>

definition int64_wrap :: "int \<Rightarrow> int" where
  "int64_wrap x = (x + 2 ^ 63) mod 2 ^ 64 - 2 ^ 63"

text \<open>
  \<open>time.Since(t)\<close> is \<open>time.Now().Sub(t)\<close>: the difference of the two clock readings,
  or the largest (smallest) duration when the difference does not fit.
\<close>

definition time_Since :: "int \<Rightarrow> int \<Rightarrow> Duration" where
  "time_Since now t =
     (let d = now - t in
      if d > maxDuration then maxDuration
      else if d < minDuration then minDuration
      else d)"

section \<open>Values stored behind \<open>interface{}\<close>\<close>

text \<open>
  The cache stores \<open>interface{}\<close> values. The program puts two dynamic types in it:
  \<open>[]string\<close> (the prefix list of \<open>lookupIPv6\<close>, the pair of \<open>lookupASNByIP\<close>) and
  \<open>*ASNDetails\<close>. Both refer to memory: a pointer to an \<open>ASNDetails\<close> is an
  address into the heap of the program state below, and a \<open>[]string\<close> is either
  \<open>nil\<close> or the slice over a backing array, given by the address of the array among
  the arrays of the state. Two copies of one pointer, or of one slice, denote the same
  object; a string is a value.
\<close>

type_synonym addr = nat

datatype slice = NilSlice | Slice addr

datatype iface =
    NilValue
  | StringSlice slice
  | ASNDetailsPtr addr

section \<open>The cache\<close>

record CacheEntry =
  entry_value :: iface
  timestamp :: int
  ttl :: Duration

text \<open>
  \<open>Cache.data\<close>, a Go map from string keys to entries. The mutex of the source
  serialises the accesses; the model is sequential.
\<close>

type_synonym Cache = "string \<rightharpoonup> CacheEntry"

text \<open>
  \<open>Cache.Get\<close>, with the reading of the clock at the call as the argument \<open>now\<close>.
  The source returns \<open>(nil, false)\<close> for an absent key and for an entry with
  \<open>time.Since(entry.timestamp) > entry.ttl\<close>.
\<close>

definition Cache_Get :: "Cache \<Rightarrow> int \<Rightarrow> string \<Rightarrow> iface \<times> bool" where
  "Cache_Get c now key =
     (case c key of
        None \<Rightarrow> (NilValue, False)
      | Some entry \<Rightarrow>
          if time_Since now (timestamp entry) > ttl entry then (NilValue, False)
          else (entry_value entry, True))"

text \<open>\<open>Cache.Set\<close>: the entry of the key is replaced, stamped with the current time.\<close>

definition Cache_Set :: "Cache \<Rightarrow> int \<Rightarrow> string \<Rightarrow> iface \<Rightarrow> Duration \<Rightarrow> Cache" where
  "Cache_Set c now key v d =
     c(key \<mapsto> \<lparr>entry_value = v, timestamp = now, ttl = d\<rparr>)"

section \<open>HTTP responses, errors and the outside world\<close>

text \<open>
  A Go \<open>error\<close> is modelled by its message; the \<open>nil\<close> error is \<open>None\<close>. Of an
  \<open>http.Response\<close> the program reads the status code and the body.
\<close>

type_synonym error = string

record Response =
  StatusCode :: int
  Body :: string

text \<open>
  The structs the JSON bodies are decoded into. The nested anonymous structs of the source
  are records of their own, and the wrapper field \<open>Data\<close> is left out:
  \<open>bgpViewData\<close> is \<open>bgp.Data\<close>, \<open>bgpViewIPData\<close> is \<open>bgpIP.Data\<close> and
  \<open>bgpViewASNData\<close> is \<open>bgpASN.Data\<close>.
\<close>

record ipv6_prefix =
  Prefix :: string

record bgpViewData =
  IPv6Prefixes :: "ipv6_prefix list"

record ip_asn =
  ip_asn_ASN :: int
  ip_asn_Name :: string
  ip_asn_Description :: string
  ip_asn_CountryCode :: string

record ip_prefix =
  prefix_ASN :: ip_asn

record bgpViewIPData =
  IP :: string
  Prefixes :: "ip_prefix list"

record rir_allocation =
  RIRName :: string
  rir_CountryCode :: string
  DateAllocated :: string
  AllocationStatus :: string

record iana_assignment =
  AssignmentStatus :: string
  iana_Description :: string
  iana_WhoisServer :: string
  DateAssigned :: string

record bgpViewASNData =
  data_ASN :: int
  data_Name :: string
  data_DescriptionShort :: string
  data_DescriptionFull :: "string list"
  data_CountryCode :: string
  data_Website :: string
  data_EmailContacts :: "string list"
  data_AbuseContacts :: "string list"
  data_TrafficRatio :: string
  data_OwnerAddress :: "string list"
  data_RIRAllocation :: rir_allocation
  data_IANAAssignment :: iana_assignment
  data_DateUpdated :: string

text \<open>
  What the program does not decide itself: the answer of the upstream API to the
  \<open>n\<close>-th outbound GET of the run (a transport error or a response) and the time that
  request takes; the \<open>int64\<close> that the Go implementation at hand produces when it converts
  the float \<open>2^k\<close>, \<open>k \<ge> 63\<close>, to \<open>time.Duration\<close> (the language leaves the result of a
  conversion that does not fit to the implementation); and the decoders of
  \<open>encoding/json\<close> for the three structs, which fail with an error or fill the struct.
\<close>

record extern =
  upstream :: "string \<Rightarrow> nat \<Rightarrow> error + Response"
  latency :: "nat \<Rightarrow> nat"
  pow2_out_of_range :: "int \<Rightarrow> int"
  decode_bgpViewData :: "string \<Rightarrow> error + bgpViewData"
  decode_bgpViewIPData :: "string \<Rightarrow> error + bgpViewIPData"
  decode_bgpViewASNData :: "string \<Rightarrow> error + bgpViewASNData"

text \<open>
  \<open>ASNDetails\<close>, the struct whose address \<open>lookupASNDetails\<close> caches and returns.
\<close>

record ASNDetails =
  ASN :: string
  Name :: string
  DescriptionShort :: string
  DescriptionFull :: "string list"
  CountryCode :: string
  Website :: string
  EmailContacts :: "string list"
  AbuseContacts :: "string list"
  TrafficRatio :: string
  OwnerAddress :: "string list"
  RIRAllocation :: string
  IANAAssignment :: string
  WhoisServer :: string
  DateUpdated :: string

text \<open>
  The state of the process: the clock, the global \<open>cache\<close>, the heap of \<open>ASNDetails\<close>
  objects and the backing arrays of the \<open>[]string\<close> slices (an address is an index
  into the list), and the URLs of the outbound requests made so far.
\<close>

record world =
  clock :: int
  cache :: Cache
  heap :: "ASNDetails list"
  arrays :: "string list list"
  requests :: "string list"

text \<open>
  The elements of a slice, \<open>nil\<close> having none, and the slice that holds the given
  elements after a composite literal or a run of \<open>append\<close> from \<open>nil\<close>: still
  \<open>nil\<close> when nothing was appended, and the slice over a new backing array otherwise
  (the arrays that \<open>append\<close> outgrew on the way are garbage, and capacity beyond the
  length is not modelled).
\<close>

definition elements :: "world \<Rightarrow> slice \<Rightarrow> string list" where
  "elements w s =
     (case s of
        NilSlice \<Rightarrow> []
      | Slice a \<Rightarrow> if a < length (arrays w) then arrays w ! a else [])"

definition new_slice :: "string list \<Rightarrow> world \<Rightarrow> slice \<times> world" where
  "new_slice xs w =
     (if xs = [] then (NilSlice, w)
      else (Slice (length (arrays w)), w\<lparr>arrays := arrays w @ [xs]\<rparr>))"

text \<open>
  \<open>func() (*http.Response, error)\<close>: a call returns a pair, each component of which may be
  \<open>nil\<close>, and may change the state.
\<close>

type_synonym request_fn = "world \<Rightarrow> (Response option \<times> error option) \<times> world"

text \<open>
  \<open>httpClient.Get(url)\<close>: the request is recorded and takes its time; the client returns
  either an error or a response, never both \<open>nil\<close>.
\<close>

definition httpClient_Get :: "extern \<Rightarrow> string \<Rightarrow> request_fn" where
  "httpClient_Get x url w =
     (let n = length (requests w);
          w' = w\<lparr>clock := clock w + int (latency x n), requests := requests w @ [url]\<rparr>
      in case upstream x url n of
           Inl e \<Rightarrow> ((None, Some e), w')
         | Inr r \<Rightarrow> ((Some r, None), w'))"

text \<open>\<open>time.Sleep(d)\<close> returns at once when \<open>d\<close> is zero or negative.\<close>

definition time_Sleep :: "Duration \<Rightarrow> world \<Rightarrow> world" where
  "time_Sleep d w = w\<lparr>clock := clock w + max 0 d\<rparr>"

section \<open>The retrying fetcher\<close>

text \<open>
  \<open>time.Duration(math.Pow(2, float64(k)))\<close>: powers of two are exact in \<open>float64\<close>, and
  the conversion truncates towards zero.
\<close>

definition pow2_Duration :: "extern \<Rightarrow> int \<Rightarrow> int" where
  "pow2_Duration x k =
     (if k < 0 then 0
      else if k < 63 then 2 ^ nat k
      else pow2_out_of_range x k)"

text \<open>
  \<open>time.Duration(math.Pow(2, float64(k))) * time.Second\<close>, a 64-bit product.
\<close>

definition backoff :: "extern \<Rightarrow> int \<Rightarrow> Duration" where
  "backoff x k = int64_wrap (pow2_Duration x k * Second)"

text \<open>
  What a run of \<open>retryWithBackoff\<close> does, in order: it invokes the request function (the
  event keeps what the call returned), closes a response body, sleeps. The log lines of
  the source are not modelled.
\<close>

datatype event =
    Invoke "Response option \<times> error option"
  | CloseBody
  | Sleep Duration

text \<open>A Go function returns its results or panics.\<close>

datatype 'a exec = Panicked | Returned 'a

text \<open>
  The loop of \<open>retryWithBackoff\<close> from the iteration \<open>attempt\<close> on, with the current
  values of the variables \<open>resp\<close> and \<open>err\<close>. Reading \<open>resp.StatusCode\<close> panics when
  the request function returned neither a response nor an error. Beside what the source
  returns, the model gives the state the run ends in and the events of the run; the
  events are kept apart from the state, out of the reach of the request function.
  No addition overflows: \<open>attempt + 2\<close> is computed only while
  \<open>attempt < maxRetries - 1\<close>.
\<close>

function retryWithBackoff_from ::
  "extern \<Rightarrow> request_fn \<Rightarrow> int \<Rightarrow> int \<Rightarrow> Response option \<Rightarrow> error option \<Rightarrow> world
     \<Rightarrow> (Response option \<times> error option) exec \<times> world \<times> event list" where
  "retryWithBackoff_from x fn maxRetries attempt resp err w =
     (if attempt < maxRetries then
        (let ((resp', err'), w1) = fn w in
         if err' \<noteq> None then
           (if attempt = maxRetries - 1 then
              (Returned (None, err'), w1, [Invoke (resp', err')])
            else
              (let waitTime = backoff x attempt;
                   (r, w2, evs) = retryWithBackoff_from x fn maxRetries (attempt + 1) resp' err'
                                    (time_Sleep waitTime w1)
               in (r, w2, Invoke (resp', err') # Sleep waitTime # evs)))
         else
           (case resp' of
              None \<Rightarrow> (Panicked, w1, [Invoke (resp', err')])
            | Some rsp \<Rightarrow>
                if StatusCode rsp = 429 then
                  (if attempt = maxRetries - 1 then
                     (Returned (resp', None), w1, [Invoke (resp', err')])
                   else
                     (let waitTime = backoff x (attempt + 2);
                          (r, w2, evs) = retryWithBackoff_from x fn maxRetries (attempt + 1) resp' err'
                                           (time_Sleep waitTime w1)
                      in (r, w2, Invoke (resp', err') # CloseBody # Sleep waitTime # evs)))
                else (Returned (resp', None), w1, [Invoke (resp', err')])))
      else (Returned (resp, err), w, []))"
  by pat_completeness auto
termination
  by (relation "measure (\<lambda>(x, fn, maxRetries, attempt, resp, err, w). nat (maxRetries - attempt))")
     auto

definition retryWithBackoff ::
  "extern \<Rightarrow> request_fn \<Rightarrow> int \<Rightarrow> world
     \<Rightarrow> (Response option \<times> error option) exec \<times> world \<times> event list" where
  "retryWithBackoff x fn maxRetries w = retryWithBackoff_from x fn maxRetries 0 None None w"

text \<open>The results of the invocations of a run, and the durations it slept, in order.\<close>

fun invocations :: "event list \<Rightarrow> (Response option \<times> error option) list" where
  "invocations [] = []"
| "invocations (Invoke r # evs) = r # invocations evs"
| "invocations (e # evs) = invocations evs"

fun sleeps :: "event list \<Rightarrow> Duration list" where
  "sleeps [] = []"
| "sleeps (Sleep d # evs) = d # sleeps evs"
| "sleeps (e # evs) = sleeps evs"

text \<open>
  The state in which the request function is invoked after it has been invoked before,
  once for each duration of the list, and each of these invocations was followed by a
  sleep of that duration.
\<close>

fun state_before :: "request_fn \<Rightarrow> Duration list \<Rightarrow> world \<Rightarrow> world" where
  "state_before fn [] w = w"
| "state_before fn (d # ds) w = state_before fn ds (time_Sleep d (snd (fn w)))"

text \<open>The two conditions under which the loop retries.\<close>

definition is_transport_error :: "Response option \<times> error option \<Rightarrow> bool" where
  "is_transport_error r = (snd r \<noteq> None)"

definition is_429 :: "Response option \<times> error option \<Rightarrow> bool" where
  "is_429 r = (snd r = None \<and> (case fst r of None \<Rightarrow> False | Some rsp \<Rightarrow> StatusCode rsp = 429))"

section \<open>The lookups\<close>

text \<open>\<open>fmt.Sprintf("%d", i)\<close>: the decimal digits, after a minus sign when negative.\<close>

fun decimal :: "nat \<Rightarrow> string" where
  "decimal n =
     (if n < 10 then [''0123456789'' ! n]
      else decimal (n div 10) @ [''0123456789'' ! (n mod 10)])"

declare decimal.simps [simp del]

definition Sprintf_d :: "int \<Rightarrow> string" where
  "Sprintf_d i = (if i < 0 then CHR ''-'' # decimal (nat (- i)) else decimal (nat i))"

text \<open>
  The three lookups share one shape. A hit returns from the cache; the type assertion on
  the cached value panics when its dynamic type is another one, and \<open>result[1]\<close> panics
  on a slice shorter than two. A miss runs the fetcher with three attempts; the deferred
  \<open>resp.Body.Close()\<close> needs a response. Each error is \<open>fmt.Errorf\<close>'s message; a
  \<open>nil\<close> pointer is \<open>None\<close>. What is cached and what is returned on success is one
  and the same slice, or pointer; \<open>lookupASNByIP\<close> returns two strings. The clock moves
  with the requests and the sleeps only.
\<close>

definition lookupIPv6 ::
  "extern \<Rightarrow> string \<Rightarrow> world \<Rightarrow> (slice \<times> error option) exec \<times> world" where
  "lookupIPv6 x asn w =
     (let cacheKey = ''asn_'' @ asn in
      case Cache_Get (cache w) (clock w) cacheKey of
        (cached, True) \<Rightarrow>
          (case cached of
             StringSlice ipv6 \<Rightarrow> (Returned (ipv6, None), w)
           | _ \<Rightarrow> (Panicked, w))
      | (_, False) \<Rightarrow>
          (let bgpURL = ''https://api.bgpview.io/asn/'' @ asn @ ''/prefixes?type=ipv6'' in
           case retryWithBackoff x (httpClient_Get x bgpURL) 3 w of
             (Panicked, w1, _) \<Rightarrow> (Panicked, w1)
           | (Returned (_, Some e), w1, _) \<Rightarrow>
               (Returned (NilSlice, Some (''BGPView API request failed: '' @ e)), w1)
           | (Returned (None, None), w1, _) \<Rightarrow> (Panicked, w1)
           | (Returned (Some resp, None), w1, _) \<Rightarrow>
               if StatusCode resp \<noteq> 200 then
                 (if StatusCode resp = 429 then
                    (Returned (NilSlice, Some (''BGPView API rate limit exceeded for ASN '' @ asn
                        @ ''. Please try again in a few minutes'')), w1)
                  else
                    (Returned (NilSlice, Some (''BGPView API returned status ''
                        @ Sprintf_d (StatusCode resp) @ '' for ASN '' @ asn)), w1))
               else
                 (case decode_bgpViewData x (Body resp) of
                    Inl e \<Rightarrow>
                      (Returned (NilSlice, Some (''failed to parse BGPView response for ASN '' @ asn
                          @ '': '' @ e)), w1)
                  | Inr bgp \<Rightarrow>
                      (let (ipv6, w2) =
                             new_slice (foldl (\<lambda>ipv6 p. ipv6 @ [Prefix p]) [] (IPv6Prefixes bgp))
                               w1;
                           w3 = w2\<lparr>cache :=
                                  Cache_Set (cache w2) (clock w2) cacheKey (StringSlice ipv6)
                                    (1 * Hour)\<rparr>
                       in (Returned (ipv6, None), w3)))))"

definition lookupASNByIP ::
  "extern \<Rightarrow> string \<Rightarrow> world \<Rightarrow> (string \<times> string \<times> error option) exec \<times> world" where
  "lookupASNByIP x ip w =
     (let cacheKey = ''ip_'' @ ip in
      case Cache_Get (cache w) (clock w) cacheKey of
        (cached, True) \<Rightarrow>
          (case cached of
             StringSlice result \<Rightarrow>
               if 2 \<le> length (elements w result) then
                 (Returned (elements w result ! 0, elements w result ! 1, None), w)
               else (Panicked, w)
           | _ \<Rightarrow> (Panicked, w))
      | (_, False) \<Rightarrow>
          (let bgpURL = ''https://api.bgpview.io/ip/'' @ ip in
           case retryWithBackoff x (httpClient_Get x bgpURL) 3 w of
             (Panicked, w1, _) \<Rightarrow> (Panicked, w1)
           | (Returned (_, Some e), w1, _) \<Rightarrow>
               (Returned ('''', '''', Some (''BGPView IP API request failed: '' @ e)), w1)
           | (Returned (None, None), w1, _) \<Rightarrow> (Panicked, w1)
           | (Returned (Some resp, None), w1, _) \<Rightarrow>
               if StatusCode resp \<noteq> 200 then
                 (if StatusCode resp = 429 then
                    (Returned ('''', '''', Some (''BGPView API rate limit exceeded for IP '' @ ip
                        @ ''. Please try again in a few minutes'')), w1)
                  else
                    (Returned ('''', '''', Some (''BGPView IP API returned status ''
                        @ Sprintf_d (StatusCode resp) @ '' for IP '' @ ip)), w1))
               else
                 (case decode_bgpViewIPData x (Body resp) of
                    Inl e \<Rightarrow>
                      (Returned ('''', '''', Some (''failed to parse BGPView IP response for '' @ ip
                          @ '': '' @ e)), w1)
                  | Inr bgpIP \<Rightarrow>
                      if 0 < length (Prefixes bgpIP) then
                        (let asn = Sprintf_d (ip_asn_ASN (prefix_ASN (Prefixes bgpIP ! 0)));
                             name = ip_asn_Name (prefix_ASN (Prefixes bgpIP ! 0));
                             name = (if name = '''' then
                                       ip_asn_Description (prefix_ASN (Prefixes bgpIP ! 0))
                                     else name);
                             (pair, w2) = new_slice [asn, name] w1;
                             w3 = w2\<lparr>cache :=
                                    Cache_Set (cache w2) (clock w2) cacheKey
                                      (StringSlice pair) (30 * Minute)\<rparr>
                         in (Returned (asn, name, None), w3))
                      else
                        (Returned ('''', '''', Some (''no ASN found for IP '' @ ip)), w1))))"

definition lookupASNDetails ::
  "extern \<Rightarrow> string \<Rightarrow> world \<Rightarrow> (addr option \<times> error option) exec \<times> world" where
  "lookupASNDetails x asn w =
     (let cacheKey = ''asn_details_'' @ asn in
      case Cache_Get (cache w) (clock w) cacheKey of
        (cached, True) \<Rightarrow>
          (case cached of
             ASNDetailsPtr p \<Rightarrow> (Returned (Some p, None), w)
           | _ \<Rightarrow> (Panicked, w))
      | (_, False) \<Rightarrow>
          (let bgpURL = ''https://api.bgpview.io/asn/'' @ asn in
           case retryWithBackoff x (httpClient_Get x bgpURL) 3 w of
             (Panicked, w1, _) \<Rightarrow> (Panicked, w1)
           | (Returned (_, Some e), w1, _) \<Rightarrow>
               (Returned (None, Some (''BGPView ASN details API request failed: '' @ e)), w1)
           | (Returned (None, None), w1, _) \<Rightarrow> (Panicked, w1)
           | (Returned (Some resp, None), w1, _) \<Rightarrow>
               if StatusCode resp \<noteq> 200 then
                 (if StatusCode resp = 429 then
                    (Returned (None, Some (''BGPView API rate limit exceeded for ASN '' @ asn
                        @ '' details'')), w1)
                  else
                    (Returned (None, Some (''BGPView ASN details API returned status ''
                        @ Sprintf_d (StatusCode resp) @ '' for ASN '' @ asn)), w1))
               else
                 (case decode_bgpViewASNData x (Body resp) of
                    Inl e \<Rightarrow>
                      (Returned (None, Some (''failed to parse BGPView ASN details response for ''
                          @ asn @ '': '' @ e)), w1)
                  | Inr bgpASN \<Rightarrow>
                      (let details =
                             \<lparr>ASN = Sprintf_d (data_ASN bgpASN),
                              Name = data_Name bgpASN,
                              DescriptionShort = data_DescriptionShort bgpASN,
                              DescriptionFull = data_DescriptionFull bgpASN,
                              CountryCode = data_CountryCode bgpASN,
                              Website = data_Website bgpASN,
                              EmailContacts = data_EmailContacts bgpASN,
                              AbuseContacts = data_AbuseContacts bgpASN,
                              TrafficRatio = data_TrafficRatio bgpASN,
                              OwnerAddress = data_OwnerAddress bgpASN,
                              RIRAllocation = '''',
                              IANAAssignment = '''',
                              WhoisServer = iana_WhoisServer (data_IANAAssignment bgpASN),
                              DateUpdated = data_DateUpdated bgpASN\<rparr>;
                           details =
                             (if RIRName (data_RIRAllocation bgpASN) \<noteq> '''' then
                                details\<lparr>RIRAllocation := RIRName (data_RIRAllocation bgpASN)\<rparr>
                              else details);
                           details =
                             (if iana_Description (data_IANAAssignment bgpASN) \<noteq> '''' then
                                details\<lparr>IANAAssignment :=
                                  iana_Description (data_IANAAssignment bgpASN)\<rparr>
                              else details);
                           p = length (heap w1);
                           w2 = w1\<lparr>heap := heap w1 @ [details]\<rparr>;
                           w3 = w2\<lparr>cache :=
                                  Cache_Set (cache w2) (clock w2) cacheKey (ASNDetailsPtr p)
                                    (2 * Hour)\<rparr>
                       in (Returned (Some p, None), w3)))))"

section \<open>Example inputs\<close>

text \<open>
  A process that has just started, and an outside world whose upstream gives the same
  answer to every request. Its JSON decoders fail on the empty body, as
  \<open>encoding/json\<close> does, and yield the example structs on any other: no IPv6 prefix for
  the ASN, one routing prefix whose ASN has a description and no name, and a record for
  AS64500.
\<close>

definition start :: world where
  "start = \<lparr>clock = 0, cache = Map.empty, heap = [], arrays = [], requests = []\<rparr>"

definition example_bgpViewIPData :: bgpViewIPData where
  "example_bgpViewIPData =
     \<lparr>IP = ''2001:db8::1'',
      Prefixes = [\<lparr>prefix_ASN = \<lparr>ip_asn_ASN = 64500, ip_asn_Name = '''',
                    ip_asn_Description = ''Example Org'', ip_asn_CountryCode = ''US''\<rparr>\<rparr>]\<rparr>"

definition example_bgpViewASNData :: bgpViewASNData where
  "example_bgpViewASNData =
     \<lparr>data_ASN = 64500, data_Name = ''EXAMPLE-AS'', data_DescriptionShort = ''Example Org'',
      data_DescriptionFull = [], data_CountryCode = ''US'', data_Website = '''',
      data_EmailContacts = [], data_AbuseContacts = [], data_TrafficRatio = '''',
      data_OwnerAddress = [],
      data_RIRAllocation = \<lparr>RIRName = ''ARIN'', rir_CountryCode = ''US'',
        DateAllocated = '''', AllocationStatus = ''''\<rparr>,
      data_IANAAssignment = \<lparr>AssignmentStatus = '''', iana_Description = '''',
        iana_WhoisServer = '''', DateAssigned = ''''\<rparr>,
      data_DateUpdated = ''''\<rparr>"

definition answering :: "error + Response \<Rightarrow> extern" where
  "answering a =
     \<lparr>upstream = (\<lambda>url n. a),
      latency = (\<lambda>n. 0),
      pow2_out_of_range = (\<lambda>k. minDuration),
      decode_bgpViewData =
        (\<lambda>body. if body = [] then Inl ''EOF'' else Inr \<lparr>IPv6Prefixes = []\<rparr>),
      decode_bgpViewIPData =
        (\<lambda>body. if body = [] then Inl ''EOF'' else Inr example_bgpViewIPData),
      decode_bgpViewASNData =
        (\<lambda>body. if body = [] then Inl ''EOF'' else Inr example_bgpViewASNData)\<rparr>"

text \<open>A request function that fails every time, and the three kinds of answers.\<close>

definition refused :: "error + Response" where
  "refused = Inl ''dial tcp: connection refused''"

definition rate_limited :: "error + Response" where
  "rate_limited = Inr \<lparr>StatusCode = 429, Body = ''''\<rparr>"

definition ok_body :: "error + Response" where
  "ok_body = Inr \<lparr>StatusCode = 200, Body = ''{}''\<rparr>"

definition not_found :: "error + Response" where
  "not_found = Inr \<lparr>StatusCode = 404, Body = ''''\<rparr>"

text \<open>
  An upstream that knows AS64500 and one of its addresses: it answers the requests for
  the details of the ASN, for its IPv6 prefixes and for the address with the JSON texts
  below, and every other request with a 404. The decoders are those of
  \<open>encoding/json\<close> on these three texts (fields that a text leaves out keep their zero
  values); no other body is decoded in the examples.
\<close>

definition details_body :: string where
  \<open>details_body = ''{"data":{"asn":64500,"name":"EXAMPLE-AS"}}''\<close>

definition prefixes_body :: string where
  \<open>prefixes_body = ''{"data":{"ipv6_prefixes":[{"prefix":"2001:db8::/32"}]}}''\<close>

definition ip_body :: string where
  \<open>ip_body = ''{"data":{"ip":"2001:db8::1","prefixes":[{"asn":{"asn":64500,"name":"","description":"Example Org","country_code":"US"}}]}}''\<close>

definition bgpview_answer :: "string \<Rightarrow> Response" where
  "bgpview_answer url =
     (if url = ''https://api.bgpview.io/asn/64500'' then
        \<lparr>StatusCode = 200, Body = details_body\<rparr>
      else if url = ''https://api.bgpview.io/asn/64500/prefixes?type=ipv6'' then
        \<lparr>StatusCode = 200, Body = prefixes_body\<rparr>
      else if url = ''https://api.bgpview.io/ip/2001:db8::1'' then
        \<lparr>StatusCode = 200, Body = ip_body\<rparr>
      else \<lparr>StatusCode = 404, Body = ''''\<rparr>)"

definition details_decoded :: bgpViewASNData where
  "details_decoded =
     \<lparr>data_ASN = 64500, data_Name = ''EXAMPLE-AS'', data_DescriptionShort = '''',
      data_DescriptionFull = [], data_CountryCode = '''', data_Website = '''',
      data_EmailContacts = [], data_AbuseContacts = [], data_TrafficRatio = '''',
      data_OwnerAddress = [],
      data_RIRAllocation = \<lparr>RIRName = '''', rir_CountryCode = '''',
        DateAllocated = '''', AllocationStatus = ''''\<rparr>,
      data_IANAAssignment = \<lparr>AssignmentStatus = '''', iana_Description = '''',
        iana_WhoisServer = '''', DateAssigned = ''''\<rparr>,
      data_DateUpdated = ''''\<rparr>"

definition bgpview :: extern where
  "bgpview =
     \<lparr>upstream = (\<lambda>url n. Inr (bgpview_answer url)),
      latency = (\<lambda>n. 0),
      pow2_out_of_range = (\<lambda>k. minDuration),
      decode_bgpViewData =
        (\<lambda>body. if body = prefixes_body then Inr \<lparr>IPv6Prefixes = [\<lparr>Prefix = ''2001:db8::/32''\<rparr>]\<rparr>
                else Inl ''not one of the example bodies''),
      decode_bgpViewIPData =
        (\<lambda>body. if body = ip_body then Inr example_bgpViewIPData
                else Inl ''not one of the example bodies''),
      decode_bgpViewASNData =
        (\<lambda>body. if body = details_body then Inr details_decoded
                else Inl ''not one of the example bodies'')\<rparr>"

section \<open>The cache: visibility of an entry\<close>

text \<open>
  C1, as amended. After \<open>Set(k, v, ttl)\<close> at the time \<open>t0\<close>, \<open>Get(k)\<close> at the time
  \<open>t0 + t\<close> returns \<open>(v, true)\<close> when \<open>t \<le> ttl\<close> and \<open>(nil, false)\<close> when \<open>t > ttl\<close>:
  the entry is still visible at the instant \<open>t = ttl\<close>. Here \<open>ttl\<close> is a
  \<open>time.Duration\<close> and the elapsed time fits one.
\<close>

theorem Cache_TTL:
  assumes "is_Duration d" and "t \<le> maxDuration"
  shows "(t \<le> d \<longrightarrow> Cache_Get (Cache_Set c t0 k v d) (t0 + t) k = (v, True)) \<and>
         (d < t \<longrightarrow> Cache_Get (Cache_Set c t0 k v d) (t0 + t) k = (NilValue, False))"
  using assms
  by (auto simp add: Cache_Get_def Cache_Set_def time_Since_def is_Duration_def Let_def)

text \<open>
  An entry stored for one hour, read after five nanoseconds and one nanosecond after the
  hour.
\<close>

theorem Cache_TTL_witness:
  "is_Duration Hour \<and> 5 \<le> maxDuration \<and> Hour + 1 \<le> maxDuration \<and>
   (5::int) \<le> Hour \<and> Hour < Hour + 1 \<and>
   Cache_Get (Cache_Set Map.empty 0 ''asn_64500'' (StringSlice NilSlice) Hour) (0 + 5) ''asn_64500''
     = (StringSlice NilSlice, True) \<and>
   Cache_Get (Cache_Set Map.empty 0 ''asn_64500'' (StringSlice NilSlice) Hour) (0 + (Hour + 1))
     ''asn_64500'' = (NilValue, False)"
proof -
  have d: "is_Duration Hour"
    by (simp add: is_Duration_def Hour_def Minute_def Second_def minDuration_def maxDuration_def)
  have t1: "(5::int) \<le> maxDuration" and t2: "Hour + 1 \<le> maxDuration"
    by (simp_all add: Hour_def Minute_def Second_def maxDuration_def)
  have le: "(5::int) \<le> Hour"
    by (simp add: Hour_def Minute_def Second_def)
  from Cache_TTL [OF d t1, of Map.empty 0 "''asn_64500''" "StringSlice NilSlice"]
       Cache_TTL [OF d t2, of Map.empty 0 "''asn_64500''" "StringSlice NilSlice"]
       d t1 t2 le
  show ?thesis by simp
qed

text \<open>
  C1 as stated fails at \<open>t = ttl\<close>: exactly one hour after a \<open>Set\<close> with a TTL of one
  hour, \<open>Get\<close> still finds the value, where the claim has \<open>(_, false)\<close>.
\<close>

theorem Cache_TTL_boundary_counterexample:
  "Cache_Get (Cache_Set Map.empty 0 ''asn_64500'' (StringSlice NilSlice) Hour) (0 + Hour) ''asn_64500''
     = (StringSlice NilSlice, True)"
  by (simp add: Cache_Get_def Cache_Set_def time_Since_def Hour_def Minute_def Second_def
      maxDuration_def minDuration_def)

section \<open>The retrying fetcher: one iteration of the loop\<close>

text \<open>
  The defining equation of the loop unfolds for ever, so it is used through the lemmas
  below: one for each way an iteration can end.
\<close>

declare retryWithBackoff_from.simps [simp del]

lemma retry_done:
  "\<not> attempt < N \<Longrightarrow> retryWithBackoff_from x fn N attempt resp err w = (Returned (resp, err), w, [])"
  by (subst retryWithBackoff_from.simps) simp

lemma retry_error_last:
  "attempt < N \<Longrightarrow> fn w = ((rsp, Some e), w1) \<Longrightarrow> attempt = N - 1 \<Longrightarrow>
   retryWithBackoff_from x fn N attempt resp err w
     = (Returned (None, Some e), w1, [Invoke (rsp, Some e)])"
  by (subst retryWithBackoff_from.simps) simp

lemma retry_error_again:
  "attempt < N \<Longrightarrow> fn w = ((rsp, Some e), w1) \<Longrightarrow> attempt \<noteq> N - 1 \<Longrightarrow>
   retryWithBackoff_from x fn N attempt resp err w
     = (case retryWithBackoff_from x fn N (attempt + 1) rsp (Some e)
               (time_Sleep (backoff x attempt) w1) of
          (r, w2, evs) \<Rightarrow> (r, w2, Invoke (rsp, Some e) # Sleep (backoff x attempt) # evs))"
  by (subst retryWithBackoff_from.simps) (simp add: Let_def)

lemma retry_panic:
  "attempt < N \<Longrightarrow> fn w = ((None, None), w1) \<Longrightarrow>
   retryWithBackoff_from x fn N attempt resp err w = (Panicked, w1, [Invoke (None, None)])"
  by (subst retryWithBackoff_from.simps) simp

lemma retry_429_last:
  "attempt < N \<Longrightarrow> fn w = ((Some rsp, None), w1) \<Longrightarrow> StatusCode rsp = 429 \<Longrightarrow>
   attempt = N - 1 \<Longrightarrow>
   retryWithBackoff_from x fn N attempt resp err w
     = (Returned (Some rsp, None), w1, [Invoke (Some rsp, None)])"
  by (subst retryWithBackoff_from.simps) simp

lemma retry_429_again:
  "attempt < N \<Longrightarrow> fn w = ((Some rsp, None), w1) \<Longrightarrow> StatusCode rsp = 429 \<Longrightarrow>
   attempt \<noteq> N - 1 \<Longrightarrow>
   retryWithBackoff_from x fn N attempt resp err w
     = (case retryWithBackoff_from x fn N (attempt + 1) (Some rsp) None
               (time_Sleep (backoff x (attempt + 2)) w1) of
          (r, w2, evs) \<Rightarrow>
            (r, w2, Invoke (Some rsp, None) # CloseBody # Sleep (backoff x (attempt + 2)) # evs))"
  by (subst retryWithBackoff_from.simps) (simp add: Let_def)

lemma retry_other:
  "attempt < N \<Longrightarrow> fn w = ((Some rsp, None), w1) \<Longrightarrow> StatusCode rsp \<noteq> 429 \<Longrightarrow>
   retryWithBackoff_from x fn N attempt resp err w
     = (Returned (Some rsp, None), w1, [Invoke (Some rsp, None)])"
  by (subst retryWithBackoff_from.simps) simp

section \<open>The retrying fetcher: number of attempts and results\<close>

lemma retry_all_errors:
  assumes fails: "\<forall>w. snd (fst (fn w)) \<noteq> None"
  shows "attempt < N \<Longrightarrow> nat (N - 1 - attempt) = k \<Longrightarrow>
     \<exists>e r w' evs. retryWithBackoff_from x fn N attempt resp err w
                     = (Returned (None, Some e), w', evs) \<and>
                   length (invocations evs) = Suc k \<and>
                   last (invocations evs) = (r, Some e)"
proof (induction k arbitrary: attempt resp err w)
  case 0
  obtain rsp e w1 where out: "fn w = ((rsp, Some e), w1)"
    using fails [rule_format, of w] by (cases "fn w") auto
  from 0 have "attempt = N - 1" by simp
  from retry_error_last [where fn=fn and w=w, OF "0.prems"(1) out this]
  show ?case by simp
next
  case (Suc k)
  obtain rsp e w1 where out: "fn w = ((rsp, Some e), w1)"
    using fails [rule_format, of w] by (cases "fn w") auto
  from Suc.prems have ne: "attempt \<noteq> N - 1" and lt: "attempt + 1 < N"
    and k: "nat (N - 1 - (attempt + 1)) = k" by simp_all
  from Suc.IH [OF lt k, of rsp "Some e" "time_Sleep (backoff x attempt) w1"]
  obtain e' r' w' evs where
    rec: "retryWithBackoff_from x fn N (attempt + 1) rsp (Some e)
            (time_Sleep (backoff x attempt) w1) = (Returned (None, Some e'), w', evs)"
    and len: "length (invocations evs) = Suc k"
    and lst: "last (invocations evs) = (r', Some e')"
    by blast
  from len have "invocations evs \<noteq> []" by auto
  with retry_error_again [where fn=fn and w=w, OF Suc.prems(1) out ne, of x resp err] rec len lst
  show ?case by simp
qed

lemma retry_all_429:
  assumes limited: "\<forall>w. \<exists>rsp. fst (fn w) = (Some rsp, None) \<and> StatusCode rsp = 429"
  shows "attempt < N \<Longrightarrow> nat (N - 1 - attempt) = k \<Longrightarrow>
     \<exists>rsp w' evs. retryWithBackoff_from x fn N attempt resp err w
                     = (Returned (Some rsp, None), w', evs) \<and>
                   StatusCode rsp = 429 \<and>
                   length (invocations evs) = Suc k \<and>
                   last (invocations evs) = (Some rsp, None)"
proof (induction k arbitrary: attempt resp err w)
  case 0
  obtain rsp w1 where out: "fn w = ((Some rsp, None), w1)" and st: "StatusCode rsp = 429"
    using limited [rule_format, of w] by (cases "fn w") auto
  from 0 have "attempt = N - 1" by simp
  from retry_429_last [where fn=fn and w=w, OF "0.prems"(1) out st this] st
  show ?case by simp
next
  case (Suc k)
  obtain rsp w1 where out: "fn w = ((Some rsp, None), w1)" and st: "StatusCode rsp = 429"
    using limited [rule_format, of w] by (cases "fn w") auto
  from Suc.prems have ne: "attempt \<noteq> N - 1" and lt: "attempt + 1 < N"
    and k: "nat (N - 1 - (attempt + 1)) = k" by simp_all
  from Suc.IH [OF lt k, of "Some rsp" None "time_Sleep (backoff x (attempt + 2)) w1"]
  obtain rsp' w' evs where
    rec: "retryWithBackoff_from x fn N (attempt + 1) (Some rsp) None
            (time_Sleep (backoff x (attempt + 2)) w1) = (Returned (Some rsp', None), w', evs)"
    and st': "StatusCode rsp' = 429"
    and len: "length (invocations evs) = Suc k"
    and lst: "last (invocations evs) = (Some rsp', None)"
    by blast
  from len have "invocations evs \<noteq> []" by auto
  with retry_429_again [where fn=fn and w=w, OF Suc.prems(1) out st ne, of x resp err] rec st' len lst
  show ?case by simp
qed

lemma invocations_rounds:
  "invocations (concat (map (\<lambda>i. [Invoke (a i), Sleep (d i)]) js) @ [Invoke b]) = map a js @ [b]"
  by (induction js) simp_all

lemma invocations_rounds_closed:
  "invocations (concat (map (\<lambda>i. [Invoke (a i), CloseBody, Sleep (d i)]) js) @ [Invoke b])
     = map a js @ [b]"
  by (induction js) simp_all

lemma retry_errors_run:
  assumes fails: "\<forall>w. snd (fst (fn w)) \<noteq> None"
  shows "attempt < N \<Longrightarrow> nat (N - 1 - attempt) = k \<Longrightarrow>
     retryWithBackoff_from x fn N attempt resp err w =
       (let ds = map (\<lambda>i. backoff x (attempt + int i)) [0..<k];
            s = state_before fn ds w
        in (Returned (None, snd (fst (fn s))), snd (fn s),
            concat (map (\<lambda>i. [Invoke (fst (fn (state_before fn (take i ds) w))), Sleep (ds ! i)])
                      [0..<k])
              @ [Invoke (fst (fn s))]))"
proof (induction k arbitrary: attempt resp err w)
  case 0
  obtain rsp e w1 where out: "fn w = ((rsp, Some e), w1)"
    using fails [rule_format, of w] by (cases "fn w") auto
  from 0 have "attempt = N - 1" by simp
  from retry_error_last [where fn=fn and w=w, OF "0.prems"(1) out this] out
  show ?case by simp
next
  case (Suc k)
  obtain rsp e w1 where out: "fn w = ((rsp, Some e), w1)"
    using fails [rule_format, of w] by (cases "fn w") auto
  from Suc.prems have ne: "attempt \<noteq> N - 1" and lt: "attempt + 1 < N"
    and k: "nat (N - 1 - (attempt + 1)) = k" by simp_all
  have shift: "map (\<lambda>i. backoff x (attempt + int i)) [0..<Suc k]
      = backoff x attempt # map (\<lambda>i. backoff x (attempt + 1 + int i)) [0..<k]"
    by (simp add: map_upt_Suc add.commute add.left_commute del: upt_Suc)
  from Suc.IH [OF lt k, of rsp "Some e" "time_Sleep (backoff x attempt) w1"]
    retry_error_again [where fn=fn and w=w, OF Suc.prems(1) out ne, of x resp err] out
  show ?case
    unfolding shift by (simp add: Let_def map_upt_Suc del: upt_Suc)
qed

text \<open>The example state and the example upstreams, by their fields.\<close>

lemma start_simps:
  "clock start = 0" "cache start = Map.empty" "heap start = []" "arrays start = []"
  "requests start = []"
  by (simp_all add: start_def)

lemma answering_simps:
  "upstream (answering a) = (\<lambda>url n. a)"
  "latency (answering a) = (\<lambda>n. 0)"
  "decode_bgpViewData (answering a) =
     (\<lambda>body. if body = [] then Inl ''EOF'' else Inr \<lparr>IPv6Prefixes = []\<rparr>)"
  "decode_bgpViewIPData (answering a) =
     (\<lambda>body. if body = [] then Inl ''EOF'' else Inr example_bgpViewIPData)"
  "decode_bgpViewASNData (answering a) =
     (\<lambda>body. if body = [] then Inl ''EOF'' else Inr example_bgpViewASNData)"
  "pow2_out_of_range (answering a) = (\<lambda>k. minDuration)"
  by (simp_all add: answering_def)

lemma Get_answering:
  "httpClient_Get (answering refused) url w
     = ((None, Some ''dial tcp: connection refused''), w\<lparr>requests := requests w @ [url]\<rparr>)"
  "httpClient_Get (answering rate_limited) url w
     = ((Some \<lparr>StatusCode = 429, Body = ''''\<rparr>, None), w\<lparr>requests := requests w @ [url]\<rparr>)"
  by (simp_all add: httpClient_Get_def answering_simps refused_def rate_limited_def Let_def)

text \<open>
  C2. A request function that fails on every invocation is invoked exactly \<open>N\<close> times by
  \<open>retryWithBackoff(fn, N)\<close>, \<open>N \<ge> 1\<close>, and not once more. The run is these invocations,
  each but the last followed by the sleep of its attempt, and each made in the state that
  the invocations and sleeps before it have left; the result is \<open>nil\<close> with the error that
  the last of them has returned, and the final state is the one it has left.
\<close>

theorem retry_count:
  assumes "\<forall>w. snd (fst (fn w)) \<noteq> None" and "1 \<le> N"
  shows "retryWithBackoff x fn N w =
     (let ds = map (\<lambda>i. backoff x (int i)) [0..<nat N - 1];
          s = state_before fn ds w
      in (Returned (None, snd (fst (fn s))), snd (fn s),
          concat (map (\<lambda>i. [Invoke (fst (fn (state_before fn (take i ds) w))), Sleep (ds ! i)])
                    [0..<nat N - 1])
            @ [Invoke (fst (fn s))])) \<and>
     length (invocations (snd (snd (retryWithBackoff x fn N w)))) = nat N \<and>
     (\<exists>e. fst (retryWithBackoff x fn N w) = Returned (None, Some e))"
proof -
  from assms(2) have pos: "0 < N" and k: "nat (N - 1 - 0) = nat N - 1" by simp_all
  from retry_errors_run [OF assms(1) pos k, of x None None w]
  have run: "retryWithBackoff x fn N w =
     (let ds = map (\<lambda>i. backoff x (int i)) [0..<nat N - 1];
          s = state_before fn ds w
      in (Returned (None, snd (fst (fn s))), snd (fn s),
          concat (map (\<lambda>i. [Invoke (fst (fn (state_before fn (take i ds) w))), Sleep (ds ! i)])
                    [0..<nat N - 1])
            @ [Invoke (fst (fn s))]))"
    by (simp add: retryWithBackoff_def)
  from assms(2) have "Suc (nat N - 1) = nat N" by simp
  with run assms(1) show ?thesis
    by (simp add: Let_def invocations_rounds)
qed

text \<open>
  Three attempts against an upstream that refuses every connection: three requests, a
  sleep of one second and one of two seconds, and the error of the third request.
\<close>

theorem retry_count_witness:
  "(\<forall>w. snd (fst (httpClient_Get (answering refused) ''https://api.bgpview.io/asn/64500'' w))
         \<noteq> None) \<and>
   (1::int) \<le> 3 \<and>
   retryWithBackoff (answering refused)
       (httpClient_Get (answering refused) ''https://api.bgpview.io/asn/64500'') 3 start
     = (Returned (None, Some ''dial tcp: connection refused''),
        start\<lparr>clock := 3000000000,
          requests := [''https://api.bgpview.io/asn/64500'', ''https://api.bgpview.io/asn/64500'',
                       ''https://api.bgpview.io/asn/64500'']\<rparr>,
        [Invoke (None, Some ''dial tcp: connection refused''), Sleep 1000000000,
         Invoke (None, Some ''dial tcp: connection refused''), Sleep 2000000000,
         Invoke (None, Some ''dial tcp: connection refused'')]) \<and>
   length (invocations (snd (snd (retryWithBackoff (answering refused)
       (httpClient_Get (answering refused) ''https://api.bgpview.io/asn/64500'') 3 start)))) = 3"
proof -
  define fn where "fn = httpClient_Get (answering refused) ''https://api.bgpview.io/asn/64500''"
  have call: "\<And>w. fst (fn w) = (None, Some ''dial tcp: connection refused'')"
    "\<And>w. snd (fn w) = w\<lparr>requests := requests w @ [''https://api.bgpview.io/asn/64500'']\<rparr>"
    by (simp_all add: fn_def Get_answering)
  have fails: "\<forall>w. snd (fst (fn w)) \<noteq> None"
    by (simp add: call)
  have three: "(1::int) \<le> 3" by simp
  have two: "[0..<nat 3 - 1] = [0, Suc 0]" by (simp add: upt_rec)
  from retry_count [OF fails three, of "answering refused" start] fails
  have "(\<forall>w. snd (fst (fn w)) \<noteq> None) \<and>
   (1::int) \<le> 3 \<and>
   retryWithBackoff (answering refused) fn 3 start
     = (Returned (None, Some ''dial tcp: connection refused''),
        start\<lparr>clock := 3000000000,
          requests := [''https://api.bgpview.io/asn/64500'', ''https://api.bgpview.io/asn/64500'',
                       ''https://api.bgpview.io/asn/64500'']\<rparr>,
        [Invoke (None, Some ''dial tcp: connection refused''), Sleep 1000000000,
         Invoke (None, Some ''dial tcp: connection refused''), Sleep 2000000000,
         Invoke (None, Some ''dial tcp: connection refused'')]) \<and>
   length (invocations (snd (snd (retryWithBackoff (answering refused) fn 3 start)))) = 3"
    unfolding two
    by (simp add: Let_def call time_Sleep_def backoff_def pow2_Duration_def
          int64_wrap_def Second_def start_def)
  then show ?thesis unfolding fn_def .
qed

lemma retry_429_run:
  assumes limited: "\<forall>w. \<exists>rsp. fst (fn w) = (Some rsp, None) \<and> StatusCode rsp = 429"
  shows "attempt < N \<Longrightarrow> nat (N - 1 - attempt) = k \<Longrightarrow>
     retryWithBackoff_from x fn N attempt resp err w =
       (let ds = map (\<lambda>i. backoff x (attempt + int i + 2)) [0..<k];
            s = state_before fn ds w
        in (Returned (fst (fn s)), snd (fn s),
            concat (map (\<lambda>i. [Invoke (fst (fn (state_before fn (take i ds) w))), CloseBody,
                               Sleep (ds ! i)])
                      [0..<k])
              @ [Invoke (fst (fn s))]))"
proof (induction k arbitrary: attempt resp err w)
  case 0
  obtain rsp w1 where out: "fn w = ((Some rsp, None), w1)" and st: "StatusCode rsp = 429"
    using limited [rule_format, of w] by (cases "fn w") auto
  from 0 have "attempt = N - 1" by simp
  from retry_429_last [where fn=fn and w=w, OF "0.prems"(1) out st this] out
  show ?case by simp
next
  case (Suc k)
  obtain rsp w1 where out: "fn w = ((Some rsp, None), w1)" and st: "StatusCode rsp = 429"
    using limited [rule_format, of w] by (cases "fn w") auto
  from Suc.prems have ne: "attempt \<noteq> N - 1" and lt: "attempt + 1 < N"
    and k: "nat (N - 1 - (attempt + 1)) = k" by simp_all
  have shift: "map (\<lambda>i. backoff x (attempt + int i + 2)) [0..<Suc k]
      = backoff x (attempt + 2) # map (\<lambda>i. backoff x (attempt + 1 + int i + 2)) [0..<k]"
    by (simp add: map_upt_Suc add.commute add.left_commute del: upt_Suc)
  from Suc.IH [OF lt k, of "Some rsp" None "time_Sleep (backoff x (attempt + 2)) w1"]
    retry_429_again [where fn=fn and w=w, OF Suc.prems(1) out st ne, of x resp err] out
  show ?case
    unfolding shift by (simp add: Let_def map_upt_Suc del: upt_Suc)
qed

text \<open>
  C4. When every attempt yields a 429 response, \<open>retryWithBackoff(fn, N)\<close>, \<open>N \<ge> 1\<close>,
  invokes the request function \<open>N\<close> times, closes the body and sleeps after each
  invocation but the last, and returns what the last invocation has returned: its
  response, of status 429, with a \<open>nil\<close> error, in the state that invocation has left.
\<close>

theorem retry_429_terminal:
  assumes "\<forall>w. \<exists>rsp. fst (fn w) = (Some rsp, None) \<and> StatusCode rsp = 429" and "1 \<le> N"
  shows "retryWithBackoff x fn N w =
     (let ds = map (\<lambda>i. backoff x (int i + 2)) [0..<nat N - 1];
          s = state_before fn ds w
      in (Returned (fst (fn s)), snd (fn s),
          concat (map (\<lambda>i. [Invoke (fst (fn (state_before fn (take i ds) w))), CloseBody,
                             Sleep (ds ! i)])
                    [0..<nat N - 1])
            @ [Invoke (fst (fn s))])) \<and>
     length (invocations (snd (snd (retryWithBackoff x fn N w)))) = nat N \<and>
     (\<exists>rsp. fst (retryWithBackoff x fn N w) = Returned (Some rsp, None) \<and>
            StatusCode rsp = 429)"
proof -
  from assms(2) have pos: "0 < N" and k: "nat (N - 1 - 0) = nat N - 1" by simp_all
  from retry_429_run [OF assms(1) pos k, of x None None w]
  have run: "retryWithBackoff x fn N w =
     (let ds = map (\<lambda>i. backoff x (int i + 2)) [0..<nat N - 1];
          s = state_before fn ds w
      in (Returned (fst (fn s)), snd (fn s),
          concat (map (\<lambda>i. [Invoke (fst (fn (state_before fn (take i ds) w))), CloseBody,
                             Sleep (ds ! i)])
                    [0..<nat N - 1])
            @ [Invoke (fst (fn s))]))"
    by (simp add: retryWithBackoff_def)
  let ?s = "state_before fn (map (\<lambda>i. backoff x (int i + 2)) [0..<nat N - 1]) w"
  from assms(1) obtain rsp where "fst (fn ?s) = (Some rsp, None)" and "StatusCode rsp = 429"
    by blast
  moreover from assms(2) have "Suc (nat N - 1) = nat N" by simp
  ultimately show ?thesis using run
    by (simp add: Let_def invocations_rounds_closed)
qed

text \<open>
  Three attempts against an upstream that answers 429 every time: three requests, sleeps
  of four and of eight seconds, and the third response.
\<close>

theorem retry_429_terminal_witness:
  "(\<forall>w. \<exists>rsp. fst (httpClient_Get (answering rate_limited)
              ''https://api.bgpview.io/asn/64500'' w) = (Some rsp, None) \<and>
           StatusCode rsp = 429) \<and>
   (1::int) \<le> 3 \<and>
   retryWithBackoff (answering rate_limited)
       (httpClient_Get (answering rate_limited) ''https://api.bgpview.io/asn/64500'') 3 start
     = (Returned (Some \<lparr>StatusCode = 429, Body = ''''\<rparr>, None),
        start\<lparr>clock := 12000000000,
          requests := [''https://api.bgpview.io/asn/64500'', ''https://api.bgpview.io/asn/64500'',
                       ''https://api.bgpview.io/asn/64500'']\<rparr>,
        [Invoke (Some \<lparr>StatusCode = 429, Body = ''''\<rparr>, None), CloseBody, Sleep 4000000000,
         Invoke (Some \<lparr>StatusCode = 429, Body = ''''\<rparr>, None), CloseBody, Sleep 8000000000,
         Invoke (Some \<lparr>StatusCode = 429, Body = ''''\<rparr>, None)]) \<and>
   length (invocations (snd (snd (retryWithBackoff (answering rate_limited)
       (httpClient_Get (answering rate_limited) ''https://api.bgpview.io/asn/64500'') 3 start)))) = 3"
proof -
  define fn where
    "fn = httpClient_Get (answering rate_limited) ''https://api.bgpview.io/asn/64500''"
  have call: "\<And>w. fst (fn w) = (Some \<lparr>StatusCode = 429, Body = ''''\<rparr>, None)"
    "\<And>w. snd (fn w) = w\<lparr>requests := requests w @ [''https://api.bgpview.io/asn/64500'']\<rparr>"
    by (simp_all add: fn_def Get_answering)
  have limited: "\<forall>w. \<exists>rsp. fst (fn w) = (Some rsp, None) \<and> StatusCode rsp = 429"
    by (simp add: call)
  have three: "(1::int) \<le> 3" by simp
  have two: "[0..<nat 3 - 1] = [0, Suc 0]" by (simp add: upt_rec)
  from retry_429_terminal [OF limited three, of "answering rate_limited" start] limited
  have "(\<forall>w. \<exists>rsp. fst (fn w) = (Some rsp, None) \<and> StatusCode rsp = 429) \<and>
   (1::int) \<le> 3 \<and>
   retryWithBackoff (answering rate_limited) fn 3 start
     = (Returned (Some \<lparr>StatusCode = 429, Body = ''''\<rparr>, None),
        start\<lparr>clock := 12000000000,
          requests := [''https://api.bgpview.io/asn/64500'', ''https://api.bgpview.io/asn/64500'',
                       ''https://api.bgpview.io/asn/64500'']\<rparr>,
        [Invoke (Some \<lparr>StatusCode = 429, Body = ''''\<rparr>, None), CloseBody, Sleep 4000000000,
         Invoke (Some \<lparr>StatusCode = 429, Body = ''''\<rparr>, None), CloseBody, Sleep 8000000000,
         Invoke (Some \<lparr>StatusCode = 429, Body = ''''\<rparr>, None)]) \<and>
   length (invocations (snd (snd (retryWithBackoff (answering rate_limited) fn 3 start)))) = 3"
    unfolding two
    by (simp add: Let_def call time_Sleep_def backoff_def pow2_Duration_def
          int64_wrap_def Second_def start_def answering_simps)
  then show ?thesis unfolding fn_def .
qed

text \<open>
  C5. When the first invocation returns a response whose status is not 429, and no error,
  \<open>retryWithBackoff\<close> returns that response after this one invocation: the run consists of
  the invocation alone, with no sleep and no further attempt, and the state is the one
  the invocation left.
\<close>

theorem retry_not_retryable:
  assumes "fn w = ((Some rsp, None), w1)" and "StatusCode rsp \<noteq> 429" and "1 \<le> N"
  shows "retryWithBackoff x fn N w = (Returned (Some rsp, None), w1, [Invoke (Some rsp, None)])"
  using assms by (simp add: retryWithBackoff_def retry_other)

text \<open>A 404 is returned at once.\<close>

theorem retry_not_retryable_witness:
  "httpClient_Get (answering not_found) ''https://api.bgpview.io/asn/64500'' start
     = ((Some \<lparr>StatusCode = 404, Body = ''''\<rparr>, None),
        start\<lparr>requests := [''https://api.bgpview.io/asn/64500'']\<rparr>) \<and>
   StatusCode \<lparr>StatusCode = 404, Body = ''''\<rparr> \<noteq> 429 \<and>
   (1::int) \<le> 3 \<and>
   retryWithBackoff (answering not_found)
       (httpClient_Get (answering not_found) ''https://api.bgpview.io/asn/64500'') 3 start
     = (Returned (Some \<lparr>StatusCode = 404, Body = ''''\<rparr>, None),
        start\<lparr>requests := [''https://api.bgpview.io/asn/64500'']\<rparr>,
        [Invoke (Some \<lparr>StatusCode = 404, Body = ''''\<rparr>, None)])"
proof -
  have first: "httpClient_Get (answering not_found) ''https://api.bgpview.io/asn/64500'' start
     = ((Some \<lparr>StatusCode = 404, Body = ''''\<rparr>, None),
        start\<lparr>requests := [''https://api.bgpview.io/asn/64500'']\<rparr>)"
    by (simp add: httpClient_Get_def answering_def not_found_def start_def Let_def)
  have status: "StatusCode \<lparr>StatusCode = 404, Body = ''''\<rparr> \<noteq> 429" by simp
  have three: "(1::int) \<le> 3" by simp
  from retry_not_retryable [where fn = "httpClient_Get (answering not_found)
      ''https://api.bgpview.io/asn/64500''" and w = start, OF first status three,
      of "answering not_found"] first
  show ?thesis by simp
qed

section \<open>The retrying fetcher: the waits\<close>

lemma retry_schedule:
  "attempt < N \<Longrightarrow> nat (N - 1 - attempt) = k \<Longrightarrow>
   retryWithBackoff_from x fn N attempt resp err w = (r, w', evs) \<Longrightarrow>
   invocations evs \<noteq> [] \<and>
   length (sleeps evs) = length (invocations evs) - 1 \<and>
   (\<forall>i < length (sleeps evs).
      if is_transport_error (invocations evs ! i) then sleeps evs ! i = backoff x (attempt + int i)
 else is_429 (invocations evs ! i) \<and> sleeps evs ! i = backoff x (attempt + int i + 2))"
proof (induction k arbitrary: attempt resp err w r w' evs)
  case 0
  then have last: "attempt = N - 1" by simp
  obtain rsp e w1 where out: "fn w = ((rsp, e), w1)" by (cases "fn w") auto
  show ?case
  proof (cases e)
    case (Some m)
    with retry_error_last [where fn=fn and w=w, OF "0.prems"(1) _ last, of rsp m w1 x resp err]
      out "0.prems"(3)
    show ?thesis by auto
  next
    case None
    note eN = this
    show ?thesis
    proof (cases rsp)
      case None
      with retry_panic [where fn=fn and w=w, OF "0.prems"(1), of w1 x resp err] out eN "0.prems"(3)
      show ?thesis by auto
    next
      case (Some a)
      show ?thesis
      proof (cases "StatusCode a = 429")
        case True
        with retry_429_last [where fn=fn and w=w, OF "0.prems"(1) _ _ last, of a w1 x resp err]
          out eN Some "0.prems"(3)
        show ?thesis by auto
      next
        case False
        with retry_other [where fn=fn and w=w, OF "0.prems"(1), of a w1 x resp err]
          out eN Some "0.prems"(3)
        show ?thesis by auto
      qed
    qed
  qed
next
  case (Suc k)
  from Suc.prems have ne: "attempt \<noteq> N - 1" and lt: "attempt + 1 < N"
    and k: "nat (N - 1 - (attempt + 1)) = k" by simp_all
  obtain rsp e w1 where out: "fn w = ((rsp, e), w1)" by (cases "fn w") auto
  show ?case
  proof (cases e)
    case (Some m)
    obtain r2 w2 evs2 where rec:
      "retryWithBackoff_from x fn N (attempt + 1) rsp (Some m) (time_Sleep (backoff x attempt) w1)
         = (r2, w2, evs2)"
      by (metis prod_cases3)
    from retry_error_again [where fn=fn and w=w, OF Suc.prems(1) _ ne, of rsp m w1 x resp err]
      out Some rec Suc.prems(3)
    have evs: "evs = Invoke (rsp, Some m) # Sleep (backoff x attempt) # evs2" by simp
    from Suc.IH [OF lt k rec]
    have ih1: "invocations evs2 \<noteq> []"
      and ih2: "length (sleeps evs2) = length (invocations evs2) - 1"
      and ih3: "\<And>i. i < length (sleeps evs2) \<Longrightarrow>
        (if is_transport_error (invocations evs2 ! i) then sleeps evs2 ! i = backoff x (attempt + 1 + int i)
 else is_429 (invocations evs2 ! i) \<and> sleeps evs2 ! i = backoff x (attempt + 1 + int i + 2))"
      by auto
    show ?thesis
    proof (intro conjI allI impI)
      show "invocations evs \<noteq> []" by (simp add: evs)
      show "length (sleeps evs) = length (invocations evs) - 1"
        using ih1 ih2 by (cases "invocations evs2") (simp_all add: evs)
    next
      fix i assume i: "i < length (sleeps evs)"
      show "if is_transport_error (invocations evs ! i) then sleeps evs ! i = backoff x (attempt + int i)
 else is_429 (invocations evs ! i) \<and> sleeps evs ! i = backoff x (attempt + int i + 2)"
      proof (cases i)
        case 0
        then show ?thesis by (simp add: evs is_transport_error_def is_429_def)
      next
        case (Suc j)
        with i have "j < length (sleeps evs2)" by (simp add: evs)
        from ih3 [OF this] Suc show ?thesis
          by (simp add: evs add.commute add.left_commute)
      qed
    qed
  next
    case None
    note eN = this
    show ?thesis
    proof (cases rsp)
      case None
      with retry_panic [where fn=fn and w=w, OF Suc.prems(1), of w1 x resp err] out eN Suc.prems(3)
      show ?thesis by auto
    next
      case (Some a)
      show ?thesis
      proof (cases "StatusCode a = 429")
        case False
        with retry_other [where fn=fn and w=w, OF Suc.prems(1), of a w1 x resp err]
          out eN Some Suc.prems(3)
        show ?thesis by auto
      next
        case True
        obtain r2 w2 evs2 where rec:
          "retryWithBackoff_from x fn N (attempt + 1) (Some a) None
             (time_Sleep (backoff x (attempt + 2)) w1) = (r2, w2, evs2)"
          by (metis prod_cases3)
        from retry_429_again [where fn=fn and w=w, OF Suc.prems(1) _ True ne, of w1 x resp err]
          out eN Some rec Suc.prems(3)
        have evs: "evs = Invoke (Some a, None) # CloseBody # Sleep (backoff x (attempt + 2)) # evs2"
          by simp
        from Suc.IH [OF lt k rec]
        have ih1: "invocations evs2 \<noteq> []"
          and ih2: "length (sleeps evs2) = length (invocations evs2) - 1"
          and ih3: "\<And>i. i < length (sleeps evs2) \<Longrightarrow>
            (if is_transport_error (invocations evs2 ! i) then sleeps evs2 ! i = backoff x (attempt + 1 + int i)
 else is_429 (invocations evs2 ! i) \<and> sleeps evs2 ! i = backoff x (attempt + 1 + int i + 2))"
          by auto
        show ?thesis
        proof (intro conjI allI impI)
          show "invocations evs \<noteq> []" by (simp add: evs)
          show "length (sleeps evs) = length (invocations evs) - 1"
            using ih1 ih2 by (cases "invocations evs2") (simp_all add: evs)
        next
          fix i assume i: "i < length (sleeps evs)"
          show "if is_transport_error (invocations evs ! i) then sleeps evs ! i = backoff x (attempt + int i)
 else is_429 (invocations evs ! i) \<and> sleeps evs ! i = backoff x (attempt + int i + 2)"
          proof (cases i)
            case 0
            then show ?thesis by (simp add: evs True is_transport_error_def is_429_def)
          next
            case (Suc j)
            with i have "j < length (sleeps evs2)" by (simp add: evs)
            from ih3 [OF this] Suc show ?thesis
              by (simp add: evs add.commute add.left_commute)
          qed
        qed
      qed
    qed
  qed
qed

lemma backoff_small:
  assumes "0 \<le> k" and "k \<le> 33"
  shows "backoff x k = 2 ^ nat k * Second"
proof -
  from assms have "nat k \<le> 33" by simp
  then have "(2::int) ^ nat k \<le> 2 ^ 33" by (intro power_increasing) simp_all
  then have "(2::int) ^ nat k * Second \<le> 2 ^ 33 * Second"
    by (simp add: Second_def)
  moreover have "(0::int) \<le> 2 ^ nat k * Second" by (simp add: Second_def)
  moreover have "(2::int) ^ 33 * Second < 2 ^ 63" by (simp add: Second_def)
  ultimately have "int64_wrap (2 ^ nat k * Second) = 2 ^ nat k * Second"
    by (simp add: int64_wrap_def)
  with assms show ?thesis by (simp add: backoff_def pow2_Duration_def)
qed

lemma retry_tied:
  "attempt < N \<Longrightarrow> nat (N - 1 - attempt) = k \<Longrightarrow>
   retryWithBackoff_from x fn N attempt resp err w = (r, w', evs) \<Longrightarrow>
   (\<forall>i < length (invocations evs).
      invocations evs ! i = fst (fn (state_before fn (take i (sleeps evs)) w))) \<and>
   w' = snd (fn (state_before fn (sleeps evs) w)) \<and>
   (length (invocations evs) = Suc k \<or>
    \<not> is_transport_error (last (invocations evs)) \<and> \<not> is_429 (last (invocations evs)))"
proof (induction k arbitrary: attempt resp err w r w' evs)
  case 0
  then have last: "attempt = N - 1" by simp
  obtain rsp e w1 where out: "fn w = ((rsp, e), w1)" by (cases "fn w") auto
  have "evs = [Invoke (rsp, e)] \<and> w' = w1"
  proof (cases e)
    case (Some m)
    with retry_error_last [where fn=fn and w=w, OF "0.prems"(1) _ last, of rsp m w1 x resp err]
      out "0.prems"(3)
    show ?thesis by auto
  next
    case None
    note eN = this
    show ?thesis
    proof (cases rsp)
      case None
      with retry_panic [where fn=fn and w=w, OF "0.prems"(1), of w1 x resp err] out eN "0.prems"(3)
      show ?thesis by auto
    next
      case (Some a)
      show ?thesis
      proof (cases "StatusCode a = 429")
        case True
        with retry_429_last [where fn=fn and w=w, OF "0.prems"(1) _ _ last, of a w1 x resp err]
          out eN Some "0.prems"(3)
        show ?thesis by auto
      next
        case False
        with retry_other [where fn=fn and w=w, OF "0.prems"(1), of a w1 x resp err]
          out eN Some "0.prems"(3)
        show ?thesis by auto
      qed
    qed
  qed
  with out show ?case by simp
next
  case (Suc k)
  from Suc.prems have ne: "attempt \<noteq> N - 1" and lt: "attempt + 1 < N"
    and k: "nat (N - 1 - (attempt + 1)) = k" by simp_all
  obtain rsp e w1 where out: "fn w = ((rsp, e), w1)" by (cases "fn w") auto
  have step: "?case" if evs: "evs = Invoke (rsp, e) # pre @ Sleep d # evs2"
      and pre: "invocations (pre @ Sleep d # evs2) = invocations evs2"
        "sleeps (pre @ Sleep d # evs2) = d # sleeps evs2"
      and rec: "retryWithBackoff_from x fn N (attempt + 1) resp2 err2 (time_Sleep d w1)
                  = (r, w', evs2)"
    for pre d evs2 resp2 err2
  proof -
    from retry_schedule [OF lt k rec] have nonempty: "invocations evs2 \<noteq> []" by simp
    from Suc.IH [OF lt k rec]
    have ih1: "\<And>i. i < length (invocations evs2) \<Longrightarrow>
        invocations evs2 ! i
          = fst (fn (state_before fn (take i (sleeps evs2)) (time_Sleep d w1)))"
      and ih2: "w' = snd (fn (state_before fn (sleeps evs2) (time_Sleep d w1)))"
      and ih3: "length (invocations evs2) = Suc k \<or>
        \<not> is_transport_error (last (invocations evs2)) \<and> \<not> is_429 (last (invocations evs2))"
      by auto
    have inv: "invocations evs = (rsp, e) # invocations evs2"
      and sl: "sleeps evs = d # sleeps evs2"
      by (simp_all add: evs pre)
    show ?thesis
    proof (intro conjI allI impI)
      fix i assume i: "i < length (invocations evs)"
      show "invocations evs ! i = fst (fn (state_before fn (take i (sleeps evs)) w))"
      proof (cases i)
        case 0
        with out show ?thesis by (simp add: inv)
      next
        case (Suc j)
        with i have "j < length (invocations evs2)" by (simp add: inv)
        from ih1 [OF this] Suc out show ?thesis by (simp add: inv sl)
      qed
    next
      from ih2 out show "w' = snd (fn (state_before fn (sleeps evs) w))" by (simp add: sl)
    next
      from ih3 nonempty
      show "length (invocations evs) = Suc (Suc k) \<or>
        \<not> is_transport_error (last (invocations evs)) \<and> \<not> is_429 (last (invocations evs))"
        by (auto simp add: inv)
    qed
  qed
  have final: "?case" if "evs = [Invoke (rsp, e)]" and "w' = w1"
      and "\<not> is_transport_error (rsp, e)" and "\<not> is_429 (rsp, e)"
    using that out by simp
  show ?case
  proof (cases e)
    case (Some m)
    obtain r2 w2 evs2 where rec:
      "retryWithBackoff_from x fn N (attempt + 1) rsp (Some m) (time_Sleep (backoff x attempt) w1)
         = (r2, w2, evs2)"
      by (metis prod_cases3)
    from retry_error_again [where fn=fn and w=w, OF Suc.prems(1) _ ne, of rsp m w1 x resp err]
      out Some rec Suc.prems(3)
    have e1: "evs = Invoke (rsp, e) # [] @ Sleep (backoff x attempt) # evs2"
      and "r2 = r" and "w2 = w'"
      by simp_all
    with rec have rec': "retryWithBackoff_from x fn N (attempt + 1) rsp (Some m)
        (time_Sleep (backoff x attempt) w1) = (r, w', evs2)"
      by simp
    show ?thesis by (rule step [OF e1 _ _ rec']) simp_all
  next
    case None
    note eN = this
    show ?thesis
    proof (cases rsp)
      case None
      with retry_panic [where fn=fn and w=w, OF Suc.prems(1), of w1 x resp err] out eN Suc.prems(3)
      show ?thesis by (intro final) (simp_all add: is_transport_error_def is_429_def)
    next
      case (Some a)
      show ?thesis
      proof (cases "StatusCode a = 429")
        case False
        with retry_other [where fn=fn and w=w, OF Suc.prems(1), of a w1 x resp err]
          out eN Some Suc.prems(3)
        show ?thesis by (intro final) (simp_all add: is_transport_error_def is_429_def)
      next
        case True
        obtain r2 w2 evs2 where rec:
          "retryWithBackoff_from x fn N (attempt + 1) (Some a) None
             (time_Sleep (backoff x (attempt + 2)) w1) = (r2, w2, evs2)"
          by (metis prod_cases3)
        from retry_429_again [where fn=fn and w=w, OF Suc.prems(1) _ True ne, of w1 x resp err]
          out eN Some rec Suc.prems(3)
        have e1: "evs = Invoke (rsp, e) # [CloseBody] @ Sleep (backoff x (attempt + 2)) # evs2"
          and "r2 = r" and "w2 = w'"
          by simp_all
        with rec have rec': "retryWithBackoff_from x fn N (attempt + 1) (Some a) None
            (time_Sleep (backoff x (attempt + 2)) w1) = (r, w', evs2)"
          by simp
        show ?thesis by (rule step [OF e1 _ _ rec']) simp_all
      qed
    qed
  qed
qed

text \<open>
  C3. A run of \<open>retryWithBackoff\<close> sleeps once after every attempt but the last, and it
  makes a further attempt after every transport error and every 429 response as long as
  fewer than \<open>N\<close> attempts were made. The attempt with the zero-based index \<open>i\<close> is
  the call of the request function in the state that the earlier calls and the sleeps
  between them have produced. When it is followed by a sleep, either it failed with a
  transport error, and then the sleep lasts \<open>2^i\<close> seconds, or it yielded a 429 response,
  and then the sleep lasts \<open>2^(i+2)\<close> seconds. The number of nanoseconds has to fit the
  64-bit \<open>time.Duration\<close>, which it does for \<open>i \<le> 33\<close> and \<open>i \<le> 31\<close>: far
  beyond the three attempts of the program.
\<close>

theorem backoff_schedule:
  assumes "retryWithBackoff x fn N w = (r, w', evs)"
  shows "length (sleeps evs) = length (invocations evs) - 1 \<and>
    (\<forall>i < length (invocations evs).
       invocations evs ! i = fst (fn (state_before fn (take i (sleeps evs)) w))) \<and>
    (0 < N \<longrightarrow> w' = snd (fn (state_before fn (sleeps evs) w))) \<and>
    (length (invocations evs) = nat N \<or>
     \<not> is_transport_error (last (invocations evs)) \<and> \<not> is_429 (last (invocations evs))) \<and>
    (\<forall>i < length (sleeps evs).
       (is_transport_error (invocations evs ! i) \<and>
          (i \<le> 33 \<longrightarrow> sleeps evs ! i = 2 ^ i * Second)) \<or>
       (is_429 (invocations evs ! i) \<and>
          (i \<le> 31 \<longrightarrow> sleeps evs ! i = 2 ^ (i + 2) * Second)))"
proof (cases "0 < N")
  case False
  with assms show ?thesis by (simp add: retryWithBackoff_def retry_done)
next
  case True
  from assms have run: "retryWithBackoff_from x fn N 0 None None w = (r, w', evs)"
    by (simp add: retryWithBackoff_def)
  from True have k: "Suc (nat (N - 1 - 0)) = nat N" by simp
  from retry_schedule [OF True refl run]
  have len: "length (sleeps evs) = length (invocations evs) - 1"
    and each: "\<And>i. i < length (sleeps evs) \<Longrightarrow>
      (if is_transport_error (invocations evs ! i) then sleeps evs ! i = backoff x (0 + int i)
       else is_429 (invocations evs ! i) \<and> sleeps evs ! i = backoff x (0 + int i + 2))"
    by simp_all
  from retry_tied [OF True refl run] k
  have tie: "\<forall>i < length (invocations evs).
       invocations evs ! i = fst (fn (state_before fn (take i (sleeps evs)) w))"
    and final: "w' = snd (fn (state_before fn (sleeps evs) w))"
    and stop: "length (invocations evs) = nat N \<or>
     \<not> is_transport_error (last (invocations evs)) \<and> \<not> is_429 (last (invocations evs))"
    by simp_all
  have waits: "\<forall>i < length (sleeps evs).
       (is_transport_error (invocations evs ! i) \<and>
          (i \<le> 33 \<longrightarrow> sleeps evs ! i = 2 ^ i * Second)) \<or>
       (is_429 (invocations evs ! i) \<and>
          (i \<le> 31 \<longrightarrow> sleeps evs ! i = 2 ^ (i + 2) * Second))"
  proof (intro allI impI)
    fix i assume "i < length (sleeps evs)"
    from each [OF this]
    show "(is_transport_error (invocations evs ! i) \<and>
             (i \<le> 33 \<longrightarrow> sleeps evs ! i = 2 ^ i * Second)) \<or>
          (is_429 (invocations evs ! i) \<and>
             (i \<le> 31 \<longrightarrow> sleeps evs ! i = 2 ^ (i + 2) * Second))"
      using backoff_small [of "int i" x] backoff_small [of "int i + 2" x]
      by (auto simp add: nat_add_distrib split: if_splits)
  qed
  from len tie final stop waits show ?thesis by blast
qed

text \<open>
  With three attempts: one second, then two, after transport errors; four seconds, then
  eight, after 429 responses.
\<close>

theorem backoff_schedule_witness:
  "(let evs = snd (snd (retryWithBackoff (answering refused)
                 (httpClient_Get (answering refused) ''https://api.bgpview.io/asn/64500'') 3 start))
    in length (sleeps evs) = 2 \<and>
       is_transport_error (invocations evs ! 0) \<and> sleeps evs ! 0 = 1 * Second \<and>
       is_transport_error (invocations evs ! 1) \<and> sleeps evs ! 1 = 2 * Second) \<and>
   (let evs = snd (snd (retryWithBackoff (answering rate_limited)
                 (httpClient_Get (answering rate_limited) ''https://api.bgpview.io/asn/64500'') 3 start))
    in length (sleeps evs) = 2 \<and>
       is_429 (invocations evs ! 0) \<and> sleeps evs ! 0 = 4 * Second \<and>
       is_429 (invocations evs ! 1) \<and> sleeps evs ! 1 = 8 * Second)"
proof -
  let ?u = "''https://api.bgpview.io/asn/64500''"
  let ?run1 = "retryWithBackoff (answering refused) (httpClient_Get (answering refused) ?u) 3 start"
  let ?run2 = "retryWithBackoff (answering rate_limited)
                 (httpClient_Get (answering rate_limited) ?u) 3 start"
  have ev1: "snd (snd ?run1) =
      [Invoke (None, Some ''dial tcp: connection refused''), Sleep 1000000000,
       Invoke (None, Some ''dial tcp: connection refused''), Sleep 2000000000,
       Invoke (None, Some ''dial tcp: connection refused'')]"
    by code_simp
  have ev2: "snd (snd ?run2) =
      [Invoke (Some \<lparr>StatusCode = 429, Body = ''''\<rparr>, None), CloseBody, Sleep 4000000000,
       Invoke (Some \<lparr>StatusCode = 429, Body = ''''\<rparr>, None), CloseBody, Sleep 8000000000,
       Invoke (Some \<lparr>StatusCode = 429, Body = ''''\<rparr>, None)]"
    by code_simp
  have run1: "?run1 = (fst ?run1, fst (snd ?run1), snd (snd ?run1))" by simp
  have run2: "?run2 = (fst ?run2, fst (snd ?run2), snd (snd ?run2))" by simp
  from backoff_schedule [OF run1] backoff_schedule [OF run2]
  show ?thesis
    unfolding Let_def ev1 ev2
    by (simp add: is_transport_error_def is_429_def Second_def)
qed

section \<open>The fetcher inside the lookups\<close>

text \<open>
  What the request function and the sleeps leave alone, the whole run leaves alone: this
  holds for the cache when the request function is \<open>httpClient.Get\<close>.
\<close>

lemma retry_from_invariant:
  assumes call: "\<And>w. f (snd (fn w)) = f w" and sleep: "\<And>d w. f (time_Sleep d w) = f w"
  shows "f (fst (snd (retryWithBackoff_from x fn N attempt resp err w))) = f w"
proof (induction "nat (N - attempt)" arbitrary: attempt resp err w)
  case 0
  then have "\<not> attempt < N" by simp
  then show ?case by (simp add: retry_done)
next
  case (Suc k)
  then have lt: "attempt < N" and k: "k = nat (N - (attempt + 1))" by simp_all
  obtain rsp e w1 where out: "fn w = ((rsp, e), w1)" by (cases "fn w") auto
  from call [of w] out have w1: "f w1 = f w" by simp
  note ih = Suc.hyps(1) [OF k]
  show ?case
  proof (cases e)
    case (Some m)
    show ?thesis
    proof (cases "attempt = N - 1")
      case True
      from retry_error_last [where fn=fn and w=w, OF lt _ True, of rsp m w1 x resp err] out Some w1
      show ?thesis by simp
    next
      case False
      from retry_error_again [where fn=fn and w=w, OF lt _ False, of rsp m w1 x resp err] out Some
        ih [of rsp "Some m" "time_Sleep (backoff x attempt) w1"] w1 sleep
      show ?thesis by (simp add: split_beta)
    qed
  next
    case None
    note eN = this
    show ?thesis
    proof (cases rsp)
      case None
      from retry_panic [where fn=fn and w=w, OF lt, of w1 x resp err] out eN None w1
      show ?thesis by simp
    next
      case (Some a)
      show ?thesis
      proof (cases "StatusCode a = 429")
        case False
        from retry_other [where fn=fn and w=w, OF lt _ False, of w1 x resp err] out eN Some w1
        show ?thesis by simp
      next
        case True
        note st = this
        show ?thesis
        proof (cases "attempt = N - 1")
          case True
          from retry_429_last [where fn=fn and w=w, OF lt _ st True, of w1 x resp err]
            out eN Some w1
          show ?thesis by simp
        next
          case False
          from retry_429_again [where fn=fn and w=w, OF lt _ st False, of w1 x resp err]
            out eN Some
            ih [of "Some a" None "time_Sleep (backoff x (attempt + 2)) w1"] w1 sleep
          show ?thesis by (simp add: split_beta)
        qed
      qed
    qed
  qed
qed

lemma retryWithBackoff_cache:
  "cache (fst (snd (retryWithBackoff x (httpClient_Get x url) N w))) = cache w"
  unfolding retryWithBackoff_def
  by (rule retry_from_invariant)
     (simp_all add: httpClient_Get_def time_Sleep_def Let_def split: sum.splits)

text \<open>An upstream that answers the first request with anything but a 429.\<close>

lemma retryWithBackoff_first_response:
  assumes "upstream x url (length (requests w)) = Inr rsp"
    and "StatusCode rsp \<noteq> 429" and "1 \<le> N"
  shows "retryWithBackoff x (httpClient_Get x url) N w
     = (Returned (Some rsp, None),
        w\<lparr>clock := clock w + int (latency x (length (requests w))),
          requests := requests w @ [url]\<rparr>,
        [Invoke (Some rsp, None)])"
proof -
  have "httpClient_Get x url w = ((Some rsp, None),
        w\<lparr>clock := clock w + int (latency x (length (requests w))),
          requests := requests w @ [url]\<rparr>)"
    using assms(1) by (simp add: httpClient_Get_def Let_def)
  with assms(2,3) show ?thesis
    by (simp add: retryWithBackoff_def retry_other)
qed

section \<open>The example inputs, evaluated\<close>

lemma first_answer:
  assumes "a = Inr rsp" and "StatusCode rsp \<noteq> 429"
  shows "retryWithBackoff (answering a) (httpClient_Get (answering a) url) 3 start
     = (Returned (Some rsp, None), start\<lparr>requests := [url]\<rparr>, [Invoke (Some rsp, None)])"
proof -
  from assms(1) have "upstream (answering a) url (length (requests start)) = Inr rsp"
    by (simp add: answering_simps)
  from retryWithBackoff_first_response [OF this assms(2), of 3]
  show ?thesis by (simp add: start_simps answering_simps)
qed

lemmas example_defs = Cache_Get_def Cache_Set_def time_Since_def start_simps answering_simps
  Hour_def Minute_def Second_def maxDuration_def minDuration_def

lemma Sprintf_d_64500: "Sprintf_d 64500 = ''64500''"
  by (simp add: Sprintf_d_def decimal.simps)

section \<open>The lookups: results\<close>

text \<open>
  C6. On a cache miss, when the fetcher comes back with a 200 response whose body decodes
  to an empty \<open>ipv6_prefixes\<close> array, \<open>lookupIPv6\<close> returns the empty prefix list
  (the \<open>nil\<close> slice that nothing was appended to) and a \<open>nil\<close> error.
\<close>

theorem lookupIPv6_empty:
  assumes miss: "snd (Cache_Get (cache w) (clock w) (''asn_'' @ asn)) = False"
    and fetched: "retryWithBackoff x
        (httpClient_Get x (''https://api.bgpview.io/asn/'' @ asn @ ''/prefixes?type=ipv6'')) 3 w
          = (Returned (Some resp, None), w1, evs)"
    and ok: "StatusCode resp = 200"
    and decoded: "decode_bgpViewData x (Body resp) = Inr bgp"
    and empty: "IPv6Prefixes bgp = []"
  shows "fst (lookupIPv6 x asn w) = Returned (NilSlice, None)"
proof -
  obtain c where "Cache_Get (cache w) (clock w) (''asn_'' @ asn) = (c, False)"
    using miss by (cases "Cache_Get (cache w) (clock w) (''asn_'' @ asn)") auto
  with fetched ok decoded empty show ?thesis
    by (simp add: lookupIPv6_def new_slice_def Let_def)
qed

text \<open>AS64500 has no IPv6 prefix; the cache is empty.\<close>

theorem lookupIPv6_empty_witness:
  "snd (Cache_Get (cache start) (clock start) (''asn_'' @ ''64500'')) = False \<and>
   retryWithBackoff (answering ok_body)
       (httpClient_Get (answering ok_body)
          (''https://api.bgpview.io/asn/'' @ ''64500'' @ ''/prefixes?type=ipv6'')) 3 start
     = (Returned (Some \<lparr>StatusCode = 200, Body = ''{}''\<rparr>, None),
        start\<lparr>requests :=
          [''https://api.bgpview.io/asn/'' @ ''64500'' @ ''/prefixes?type=ipv6'']\<rparr>,
        [Invoke (Some \<lparr>StatusCode = 200, Body = ''{}''\<rparr>, None)]) \<and>
   StatusCode \<lparr>StatusCode = 200, Body = ''{}''\<rparr> = 200 \<and>
   decode_bgpViewData (answering ok_body) (Body \<lparr>StatusCode = 200, Body = ''{}''\<rparr>)
     = Inr \<lparr>IPv6Prefixes = []\<rparr> \<and>
   IPv6Prefixes \<lparr>IPv6Prefixes = []\<rparr> = [] \<and>
   fst (lookupIPv6 (answering ok_body) ''64500'' start) = Returned (NilSlice, None)"
proof -
  let ?resp = "\<lparr>StatusCode = 200, Body = ''{}''\<rparr>"
  have miss: "snd (Cache_Get (cache start) (clock start) (''asn_'' @ ''64500'')) = False"
    by (simp add: Cache_Get_def start_simps)
  have fetched: "retryWithBackoff (answering ok_body)
       (httpClient_Get (answering ok_body)
          (''https://api.bgpview.io/asn/'' @ ''64500'' @ ''/prefixes?type=ipv6'')) 3 start
     = (Returned (Some ?resp, None),
        start\<lparr>requests :=
          [''https://api.bgpview.io/asn/'' @ ''64500'' @ ''/prefixes?type=ipv6'']\<rparr>,
        [Invoke (Some ?resp, None)])"
    by (rule first_answer [OF ok_body_def]) simp
  have ok: "StatusCode ?resp = 200" by simp
  have decoded:
    "decode_bgpViewData (answering ok_body) (Body ?resp) = Inr \<lparr>IPv6Prefixes = []\<rparr>"
    by (simp add: answering_simps)
  have empty: "IPv6Prefixes \<lparr>IPv6Prefixes = []\<rparr> = []" by simp
  from lookupIPv6_empty [OF miss fetched ok decoded empty] miss fetched ok decoded empty
  show ?thesis by blast
qed

text \<open>
  C8. On a cache miss, when the fetcher comes back with a 200 response whose body decodes,
  \<open>lookupASNByIP\<close> fails with \<open>no ASN found for IP ...\<close> when the decoded prefix list is
  empty; otherwise it returns, with a \<open>nil\<close> error, the ASN of the first prefix (in
  decimal) and its name, or its description when the name is the empty string.
\<close>

theorem lookupASNByIP_first_prefix:
  assumes miss: "snd (Cache_Get (cache w) (clock w) (''ip_'' @ ip)) = False"
    and fetched: "retryWithBackoff x (httpClient_Get x (''https://api.bgpview.io/ip/'' @ ip)) 3 w
          = (Returned (Some resp, None), w1, evs)"
    and ok: "StatusCode resp = 200"
    and decoded: "decode_bgpViewIPData x (Body resp) = Inr bgpIP"
  shows "fst (lookupASNByIP x ip w) =
     (case Prefixes bgpIP of
        [] \<Rightarrow> Returned ('''', '''', Some (''no ASN found for IP '' @ ip))
      | p # _ \<Rightarrow>
          Returned (Sprintf_d (ip_asn_ASN (prefix_ASN p)),
                    (if ip_asn_Name (prefix_ASN p) = '''' then ip_asn_Description (prefix_ASN p)
                     else ip_asn_Name (prefix_ASN p)),
                    None))"
proof -
  obtain c where "Cache_Get (cache w) (clock w) (''ip_'' @ ip) = (c, False)"
    using miss by (cases "Cache_Get (cache w) (clock w) (''ip_'' @ ip)") auto
  with fetched ok decoded show ?thesis
    by (simp add: lookupASNByIP_def new_slice_def Let_def split: list.splits)
qed

text \<open>
  The scenario of the specification: the ASN of the first prefix has no name and the
  description \<open>Example Org\<close>.
\<close>

theorem lookupASNByIP_first_prefix_witness:
  "snd (Cache_Get (cache start) (clock start) (''ip_'' @ ''2001:db8::1'')) = False \<and>
   retryWithBackoff (answering ok_body)
       (httpClient_Get (answering ok_body) (''https://api.bgpview.io/ip/'' @ ''2001:db8::1''))
       3 start
     = (Returned (Some \<lparr>StatusCode = 200, Body = ''{}''\<rparr>, None),
        start\<lparr>requests := [''https://api.bgpview.io/ip/'' @ ''2001:db8::1'']\<rparr>,
        [Invoke (Some \<lparr>StatusCode = 200, Body = ''{}''\<rparr>, None)]) \<and>
   StatusCode \<lparr>StatusCode = 200, Body = ''{}''\<rparr> = 200 \<and>
   decode_bgpViewIPData (answering ok_body) (Body \<lparr>StatusCode = 200, Body = ''{}''\<rparr>)
     = Inr example_bgpViewIPData \<and>
   fst (lookupASNByIP (answering ok_body) ''2001:db8::1'' start)
     = Returned (''64500'', ''Example Org'', None)"
proof -
  let ?resp = "\<lparr>StatusCode = 200, Body = ''{}''\<rparr>"
  have miss: "snd (Cache_Get (cache start) (clock start) (''ip_'' @ ''2001:db8::1'')) = False"
    by (simp add: Cache_Get_def start_simps)
  have fetched: "retryWithBackoff (answering ok_body)
       (httpClient_Get (answering ok_body) (''https://api.bgpview.io/ip/'' @ ''2001:db8::1''))
       3 start
     = (Returned (Some ?resp, None),
        start\<lparr>requests := [''https://api.bgpview.io/ip/'' @ ''2001:db8::1'']\<rparr>,
        [Invoke (Some ?resp, None)])"
    by (rule first_answer [OF ok_body_def]) simp
  have ok: "StatusCode ?resp = 200" by simp
  have decoded:
    "decode_bgpViewIPData (answering ok_body) (Body ?resp) = Inr example_bgpViewIPData"
    by (simp add: answering_simps)
  from lookupASNByIP_first_prefix [OF miss fetched ok decoded]
  have "fst (lookupASNByIP (answering ok_body) ''2001:db8::1'' start)
     = Returned (''64500'', ''Example Org'', None)"
    by (simp add: example_bgpViewIPData_def Sprintf_d_64500)
  with miss fetched ok decoded show ?thesis by blast
qed

section \<open>The lookups and the cache\<close>

lemma lookupIPv6_error_cache:
  assumes "lookupIPv6 x asn w = (Returned (v, Some e), w')"
  shows "cache w' = cache w"
proof -
  let ?url = "''https://api.bgpview.io/asn/'' @ asn @ ''/prefixes?type=ipv6''"
  obtain r w1 evs where run: "retryWithBackoff x (httpClient_Get x ?url) 3 w = (r, w1, evs)"
    by (metis prod_cases3)
  from retryWithBackoff_cache [of x ?url 3 w] run have "cache w1 = cache w" by simp
  with assms run show ?thesis
    by (auto simp add: lookupIPv6_def new_slice_def Let_def
          split: prod.splits bool.splits iface.splits exec.splits option.splits if_splits
            sum.splits)
qed

lemma lookupASNByIP_error_cache:
  assumes "lookupASNByIP x ip w = (Returned (a, n, Some e), w')"
  shows "cache w' = cache w"
proof -
  let ?url = "''https://api.bgpview.io/ip/'' @ ip"
  obtain r w1 evs where run: "retryWithBackoff x (httpClient_Get x ?url) 3 w = (r, w1, evs)"
    by (metis prod_cases3)
  from retryWithBackoff_cache [of x ?url 3 w] run have "cache w1 = cache w" by simp
  with assms run show ?thesis
    by (auto simp add: lookupASNByIP_def new_slice_def Let_def
          split: prod.splits bool.splits iface.splits exec.splits option.splits if_splits
            sum.splits)
qed

lemma lookupASNDetails_error_cache:
  assumes "lookupASNDetails x asn w = (Returned (p, Some e), w')"
  shows "cache w' = cache w"
proof -
  let ?url = "''https://api.bgpview.io/asn/'' @ asn"
  obtain r w1 evs where run: "retryWithBackoff x (httpClient_Get x ?url) 3 w = (r, w1, evs)"
    by (metis prod_cases3)
  from retryWithBackoff_cache [of x ?url 3 w] run have "cache w1 = cache w" by simp
  with assms run show ?thesis
    by (auto simp add: lookupASNDetails_def Let_def
          split: prod.splits bool.splits iface.splits exec.splits option.splits if_splits
            sum.splits)
qed

text \<open>
  C9. Whenever one of the three lookups returns an error, whatever its kind, the cache is
  the one the lookup found: no entry was added or replaced.
\<close>

theorem lookup_error_leaves_cache:
  "(\<forall>v e w'. lookupIPv6 x asn w = (Returned (v, Some e), w') \<longrightarrow> cache w' = cache w) \<and>
   (\<forall>a n e w'. lookupASNByIP x ip w = (Returned (a, n, Some e), w') \<longrightarrow> cache w' = cache w) \<and>
   (\<forall>p e w'. lookupASNDetails x asn w = (Returned (p, Some e), w') \<longrightarrow> cache w' = cache w)"
  using lookupIPv6_error_cache lookupASNByIP_error_cache lookupASNDetails_error_cache
  by blast

text \<open>
  A transport failure after three attempts, a 404 and a 429 after three attempts, one
  for each lookup.
\<close>

theorem lookup_error_leaves_cache_witness:
  "(\<exists>e w'. lookupIPv6 (answering refused) ''64500'' start = (Returned (NilSlice, Some e), w') \<and>
      cache w' = cache start) \<and>
   lookupASNByIP (answering not_found) ''2001:db8::1'' start
     = (Returned ('''', '''', Some ''BGPView IP API returned status 404 for IP 2001:db8::1''),
        start\<lparr>requests := [''https://api.bgpview.io/ip/2001:db8::1'']\<rparr>) \<and>
   cache (start\<lparr>requests := [''https://api.bgpview.io/ip/2001:db8::1'']\<rparr>) = cache start \<and>
   lookupASNDetails (answering rate_limited) ''64500''
       (start\<lparr>requests := [''https://api.bgpview.io/ip/2001:db8::1'']\<rparr>)
     = (Returned (None, Some ''BGPView API rate limit exceeded for ASN 64500 details''),
        snd (lookupASNDetails (answering rate_limited) ''64500''
               (start\<lparr>requests := [''https://api.bgpview.io/ip/2001:db8::1'']\<rparr>))) \<and>
   cache (snd (lookupASNDetails (answering rate_limited) ''64500''
               (start\<lparr>requests := [''https://api.bgpview.io/ip/2001:db8::1'']\<rparr>)))
     = cache (start\<lparr>requests := [''https://api.bgpview.io/ip/2001:db8::1'']\<rparr>)"
proof -
  let ?w = "start\<lparr>requests := [''https://api.bgpview.io/ip/2001:db8::1'']\<rparr>"
  have fails: "\<forall>w. snd (fst (httpClient_Get (answering refused)
      (''https://api.bgpview.io/asn/'' @ ''64500'' @ ''/prefixes?type=ipv6'') w)) \<noteq> None"
    by (simp add: httpClient_Get_def answering_simps refused_def Let_def)
  from retry_all_errors [OF fails, of 0 3 2 "answering refused" None None start]
  obtain e w' evs where run: "retryWithBackoff (answering refused)
      (httpClient_Get (answering refused)
         (''https://api.bgpview.io/asn/'' @ ''64500'' @ ''/prefixes?type=ipv6'')) 3 start
      = (Returned (None, Some e), w', evs)"
    by (auto simp add: retryWithBackoff_def)
  then have one: "lookupIPv6 (answering refused) ''64500'' start
      = (Returned (NilSlice, Some (''BGPView API request failed: '' @ e)), w')"
    by (simp add: lookupIPv6_def Cache_Get_def start_simps Let_def)
  have "Sprintf_d 404 = ''404''" by (simp add: Sprintf_d_def decimal.simps)
  then have two: "lookupASNByIP (answering not_found) ''2001:db8::1'' start
      = (Returned ('''', '''', Some ''BGPView IP API returned status 404 for IP 2001:db8::1''), ?w)"
    by (simp add: lookupASNByIP_def first_answer [OF not_found_def] Cache_Get_def start_simps
          Let_def)
  have limited: "\<forall>w. \<exists>rsp. fst (httpClient_Get (answering rate_limited)
      (''https://api.bgpview.io/asn/'' @ ''64500'') w) = (Some rsp, None) \<and> StatusCode rsp = 429"
    by (simp add: httpClient_Get_def answering_simps rate_limited_def Let_def)
  from retry_all_429 [OF limited, of 0 3 2 "answering rate_limited" None None ?w]
  obtain rsp w'' evs' where run3: "retryWithBackoff (answering rate_limited)
      (httpClient_Get (answering rate_limited) (''https://api.bgpview.io/asn/'' @ ''64500'')) 3 ?w
      = (Returned (Some rsp, None), w'', evs')" and st: "StatusCode rsp = 429"
    by (auto simp add: retryWithBackoff_def)
  then have three: "lookupASNDetails (answering rate_limited) ''64500'' ?w
      = (Returned (None, Some ''BGPView API rate limit exceeded for ASN 64500 details''),
         snd (lookupASNDetails (answering rate_limited) ''64500'' ?w))"
    by (simp add: lookupASNDetails_def Cache_Get_def start_simps Let_def)
  from lookup_error_leaves_cache [of "answering refused" "''64500''" start "''''"]
    one have c1: "cache w' = cache start" by blast
  from lookup_error_leaves_cache [of "answering not_found" "''''" start "''2001:db8::1''"]
    two have c2: "cache ?w = cache start" by blast
  from lookup_error_leaves_cache [of "answering rate_limited" "''64500''" ?w "''''"]
    three have c3: "cache (snd (lookupASNDetails (answering rate_limited) ''64500'' ?w)) = cache ?w"
    by blast
  from one c1 two c2 three c3 show ?thesis by blast
qed

section \<open>The example upstream, evaluated\<close>

lemma bgpview_simps:
  "upstream bgpview = (\<lambda>url n. Inr (bgpview_answer url))"
  "latency bgpview = (\<lambda>n. 0)"
  "decode_bgpViewData bgpview prefixes_body = Inr \<lparr>IPv6Prefixes = [\<lparr>Prefix = ''2001:db8::/32''\<rparr>]\<rparr>"
  "decode_bgpViewIPData bgpview ip_body = Inr example_bgpViewIPData"
  "decode_bgpViewASNData bgpview details_body = Inr details_decoded"
  by (simp_all add: bgpview_def)

lemma bgpview_answers:
  "bgpview_answer ''https://api.bgpview.io/asn/64500''
     = \<lparr>StatusCode = 200, Body = details_body\<rparr>"
  "bgpview_answer ''https://api.bgpview.io/asn/64500/prefixes?type=ipv6''
     = \<lparr>StatusCode = 200, Body = prefixes_body\<rparr>"
  "bgpview_answer ''https://api.bgpview.io/ip/2001:db8::1''
     = \<lparr>StatusCode = 200, Body = ip_body\<rparr>"
  "bgpview_answer ''https://api.bgpview.io/asn/details_64500''
     = \<lparr>StatusCode = 404, Body = ''''\<rparr>"
  by (simp_all add: bgpview_answer_def)

lemma bgpview_never_429: "StatusCode (bgpview_answer url) \<noteq> 429"
  by (simp add: bgpview_answer_def)

lemma retry_bgpview:
  "retryWithBackoff bgpview (httpClient_Get bgpview url) 3 w
     = (Returned (Some (bgpview_answer url), None), w\<lparr>requests := requests w @ [url]\<rparr>,
        [Invoke (Some (bgpview_answer url), None)])"
proof -
  have "upstream bgpview url (length (requests w)) = Inr (bgpview_answer url)"
    by (simp add: bgpview_simps)
  from retryWithBackoff_first_response [OF this bgpview_never_429, of 3]
  show ?thesis by (simp add: bgpview_simps)
qed

lemma Sprintf_d_404: "Sprintf_d 404 = ''404''"
  by (simp add: Sprintf_d_def decimal.simps)

lemmas bgpview_run = lookupASNDetails_def lookupIPv6_def lookupASNByIP_def retry_bgpview
  bgpview_answers bgpview_simps new_slice_def elements_def Let_def Cache_Get_def Cache_Set_def
  time_Since_def start_simps Hour_def Minute_def Second_def maxDuration_def minDuration_def
  Sprintf_d_64500 Sprintf_d_404 details_decoded_def example_bgpViewIPData_def

section \<open>The cache hit of \<open>lookupIPv6\<close>\<close>

text \<open>
  A hit on an entry whose value is a \<open>[]string\<close> returns that slice and leaves the state
  as it is, whatever the upstream would answer; a hit on a \<open>*ASNDetails\<close> panics.
\<close>

lemma lookupIPv6_cache_hit:
  assumes "Cache_Get (cache w) (clock w) (''asn_'' @ asn) = (StringSlice s, True)"
  shows "lookupIPv6 x asn w = (Returned (s, None), w)"
  using assms by (simp add: lookupIPv6_def)

lemma lookupIPv6_wrong_type:
  assumes "Cache_Get (cache w) (clock w) (''asn_'' @ asn) = (ASNDetailsPtr p, True)"
  shows "lookupIPv6 x asn w = (Panicked, w)"
  using assms by (simp add: lookupIPv6_def)

text \<open>
  C7 says that \<open>lookupIPv6(asn)\<close> returns the cached value with a \<open>nil\<close> error, and
  makes no request, whenever the cache holds an unexpired entry for \<open>"asn_" + asn\<close>. The
  code does not: the form is posted with the ASN \<open>64500\<close> and then with
  \<open>details_64500\<close>, and the handler calls \<open>lookupASNDetails\<close> and \<open>lookupIPv6\<close> each
  time. The first call caches a \<open>*ASNDetails\<close> under \<open>asn_details_64500\<close>, which is
  the key of the last call as well; there the entry is unexpired and no request is made,
  but the type assertion \<open>cached.([]string)\<close> panics.
\<close>

theorem lookupIPv6_key_collision:
  "(let (r1, w1) = lookupASNDetails bgpview ''64500'' start;
        (r2, w2) = lookupIPv6 bgpview ''64500'' w1;
        (r3, w3) = lookupASNDetails bgpview ''details_64500'' w2;
        (r4, w4) = lookupIPv6 bgpview ''details_64500'' w3
    in r1 = Returned (Some 0, None) \<and>
       r2 = Returned (Slice 0, None) \<and>
       r3 = Returned (None,
              Some ''BGPView ASN details API returned status 404 for ASN details_64500'') \<and>
       Cache_Get (cache w3) (clock w3) (''asn_'' @ ''details_64500'') = (ASNDetailsPtr 0, True) \<and>
       r4 = Panicked \<and>
       requests w4 = requests w3)"
  by (simp add: bgpview_run)

section \<open>What the callers share with the cache\<close>

lemma fresh_entry:
  assumes "0 \<le> d" and "d \<le> 2 * Hour"
  shows "Cache_Get (Cache_Set c t k v d) t k = (v, True)"
  using assms
  by (simp add: Cache_Get_def Cache_Set_def time_Since_def Hour_def Minute_def Second_def
        maxDuration_def minDuration_def)

lemma lookupASNDetails_pointer_cached:
  assumes "lookupASNDetails x asn w = (Returned (Some p, None), w')"
  shows "Cache_Get (cache w') (clock w') (''asn_details_'' @ asn) = (ASNDetailsPtr p, True)"
proof -
  let ?url = "''https://api.bgpview.io/asn/'' @ asn"
  obtain r w1 evs where run: "retryWithBackoff x (httpClient_Get x ?url) 3 w = (r, w1, evs)"
    by (metis prod_cases3)
  have fresh: "\<And>c t k v. Cache_Get (Cache_Set c t k v (2 * Hour)) t k = (v, True)"
    by (rule fresh_entry) (simp_all add: Hour_def Minute_def Second_def)
  from assms run show ?thesis
    by (auto simp add: lookupASNDetails_def Let_def fresh
          split: prod.splits bool.splits iface.splits exec.splits option.splits if_splits
            sum.splits)
qed

lemma lookupIPv6_slice_cached:
  assumes "lookupIPv6 x asn w = (Returned (s, None), w')"
  shows "Cache_Get (cache w') (clock w') (''asn_'' @ asn) = (StringSlice s, True)"
proof -
  let ?url = "''https://api.bgpview.io/asn/'' @ asn @ ''/prefixes?type=ipv6''"
  obtain r w1 evs where run: "retryWithBackoff x (httpClient_Get x ?url) 3 w = (r, w1, evs)"
    by (metis prod_cases3)
  have fresh: "\<And>c t k v. Cache_Get (Cache_Set c t k v Hour) t k = (v, True)"
    by (rule fresh_entry) (simp_all add: Hour_def Minute_def Second_def)
  from assms run show ?thesis
    by (auto simp add: lookupIPv6_def new_slice_def Let_def fresh
          split: prod.splits bool.splits iface.splits exec.splits option.splits if_splits
            sum.splits)
qed

lemma lookupASNByIP_strings_cached:
  assumes "lookupASNByIP x ip w = (Returned (a, n, None), w')"
  shows "\<exists>s. Cache_Get (cache w') (clock w') (''ip_'' @ ip) = (StringSlice s, True) \<and>
             2 \<le> length (elements w' s) \<and> elements w' s ! 0 = a \<and> elements w' s ! 1 = n"
proof -
  let ?url = "''https://api.bgpview.io/ip/'' @ ip"
  obtain r w1 evs where run: "retryWithBackoff x (httpClient_Get x ?url) 3 w = (r, w1, evs)"
    by (metis prod_cases3)
  have fresh: "\<And>c t k v. Cache_Get (Cache_Set c t k v (30 * Minute)) t k = (v, True)"
    by (rule fresh_entry) (simp_all add: Hour_def Minute_def Second_def)
  from assms run show ?thesis
    by (auto simp add: lookupASNByIP_def new_slice_def elements_def Let_def fresh
          split: prod.splits bool.splits iface.splits exec.splits option.splits if_splits
            sum.splits)
qed

text \<open>
  C10, as amended. The value is handed out as it is stored, without a copy of what it
  refers to. What \<open>Cache.Get\<close> finds under a key is the value that was \<open>Set\<close> there. After
  every successful \<open>lookupASNDetails\<close>, hit or miss, the pointer the caller has received
  is the pointer the cache holds, and returns again, under \<open>"asn_details_" + asn\<close>; after
  every successful \<open>lookupIPv6\<close> the slice the caller has received is the slice the cache
  holds under \<open>"asn_" + asn\<close>, over the same backing array. Only \<open>lookupASNByIP\<close> gives
  its caller copies: the two strings that are the elements of the cached slice.
\<close>

theorem lookups_share_with_cache:
  "(Cache_Get (Cache_Set c t0 k v d) now k = (v', True) \<longrightarrow> v' = v) \<and>
   (lookupASNDetails x asn w = (Returned (Some p, None), w') \<longrightarrow>
      Cache_Get (cache w') (clock w') (''asn_details_'' @ asn) = (ASNDetailsPtr p, True)) \<and>
   (lookupIPv6 x asn w = (Returned (s, None), w') \<longrightarrow>
      Cache_Get (cache w') (clock w') (''asn_'' @ asn) = (StringSlice s, True)) \<and>
   (lookupASNByIP x ip w = (Returned (a, n, None), w') \<longrightarrow>
      (\<exists>s. Cache_Get (cache w') (clock w') (''ip_'' @ ip) = (StringSlice s, True) \<and>
           2 \<le> length (elements w' s) \<and> elements w' s ! 0 = a \<and> elements w' s ! 1 = n))"
proof -
  have "Cache_Get (Cache_Set c t0 k v d) now k = (v', True) \<longrightarrow> v' = v"
    by (auto simp add: Cache_Get_def Cache_Set_def split: if_splits)
  with lookupASNDetails_pointer_cached lookupIPv6_slice_cached lookupASNByIP_strings_cached
  show ?thesis by blast
qed

text \<open>
  The first lookups against the example upstream: the details of AS64500 are the object
  at address 0, its prefixes the array at address 0, and the two strings for the address
  are the elements of the array at address 1.
\<close>

theorem lookups_share_with_cache_witness:
  "(let (r1, w1) = lookupASNDetails bgpview ''64500'' start;
        (r2, w2) = lookupIPv6 bgpview ''64500'' w1;
        (r3, w3) = lookupASNByIP bgpview ''2001:db8::1'' w2
    in Cache_Get (Cache_Set Map.empty 0 ''asn_64500'' (StringSlice (Slice 0)) Hour) Second
         ''asn_64500'' = (StringSlice (Slice 0), True) \<and>
       r1 = Returned (Some 0, None) \<and>
       Cache_Get (cache w1) (clock w1) (''asn_details_'' @ ''64500'') = (ASNDetailsPtr 0, True) \<and>
       r2 = Returned (Slice 0, None) \<and>
       Cache_Get (cache w2) (clock w2) (''asn_'' @ ''64500'') = (StringSlice (Slice 0), True) \<and>
       r3 = Returned (''64500'', ''Example Org'', None) \<and>
       Cache_Get (cache w3) (clock w3) (''ip_'' @ ''2001:db8::1'')
         = (StringSlice (Slice 1), True) \<and>
       elements w3 (Slice 1) = [''64500'', ''Example Org''])"
proof -
  obtain r1 w1 where one: "lookupASNDetails bgpview ''64500'' start = (r1, w1)"
    by (cases "lookupASNDetails bgpview ''64500'' start")
  obtain r2 w2 where two: "lookupIPv6 bgpview ''64500'' w1 = (r2, w2)"
    by (cases "lookupIPv6 bgpview ''64500'' w1")
  obtain r3 w3 where three: "lookupASNByIP bgpview ''2001:db8::1'' w2 = (r3, w3)"
    by (cases "lookupASNByIP bgpview ''2001:db8::1'' w2")
  have hit: "Cache_Get (Cache_Set Map.empty 0 ''asn_64500'' (StringSlice (Slice 0)) Hour) Second
      ''asn_64500'' = (StringSlice (Slice 0), True)"
    by (simp add: Cache_Get_def Cache_Set_def time_Since_def Hour_def Minute_def Second_def
          maxDuration_def minDuration_def)
  have r1: "r1 = Returned (Some 0, None)"
    using one by (auto simp add: bgpview_run)
  have r2: "r2 = Returned (Slice 0, None)"
    using one two by (auto simp add: bgpview_run)
  have r3: "r3 = Returned (''64500'', ''Example Org'', None)"
    and elems: "elements w3 (Slice 1) = [''64500'', ''Example Org'']"
    and key: "Cache_Get (cache w3) (clock w3) (''ip_'' @ ''2001:db8::1'')
         = (StringSlice (Slice 1), True)"
    using one two three by (auto simp add: bgpview_run)
  from lookups_share_with_cache [of Map.empty 0 "''asn_64500''" "StringSlice (Slice 0)" Hour
      Second "StringSlice (Slice 0)" bgpview "''64500''" start 0 w1]
    one r1
  have c1: "Cache_Get (cache w1) (clock w1) (''asn_details_'' @ ''64500'') = (ASNDetailsPtr 0, True)"
    by simp
  from lookups_share_with_cache [of Map.empty 0 "''asn_64500''" "StringSlice (Slice 0)" Hour
      Second "StringSlice (Slice 0)" bgpview "''64500''" w1 0 w2 "Slice 0"]
    two r2
  have c2: "Cache_Get (cache w2) (clock w2) (''asn_'' @ ''64500'') = (StringSlice (Slice 0), True)"
    by simp
  from lookups_share_with_cache [of Map.empty 0 "''asn_64500''" "StringSlice (Slice 0)" Hour
      Second "StringSlice (Slice 0)" bgpview "''64500''" w2 0 w3 "Slice 0" "''2001:db8::1''"
      "''64500''" "''Example Org''"]
    three r3
  have "\<exists>s. Cache_Get (cache w3) (clock w3) (''ip_'' @ ''2001:db8::1'') = (StringSlice s, True) \<and>
          2 \<le> length (elements w3 s) \<and> elements w3 s ! 0 = ''64500'' \<and>
          elements w3 s ! 1 = ''Example Org''"
    by simp
  with key elems
  have c3: "Cache_Get (cache w3) (clock w3) (''ip_'' @ ''2001:db8::1'')
         = (StringSlice (Slice 1), True) \<and>
       elements w3 (Slice 1) = [''64500'', ''Example Org'']"
    by simp
  from hit r1 c1 r2 c2 r3 c3 one two three
  show ?thesis by simp
qed

text \<open>
  C10 as stated fails. The caller of \<open>lookupASNDetails("64500")\<close> receives the address 0,
  which is the address the cache keeps: when that caller writes a name into the object,
  the next caller, served from the cache without a request, receives the same address and
  reads that name. Likewise the caller of \<open>lookupIPv6("64500")\<close> receives the slice over
  the array 0, which the cache keeps: when it overwrites the element, the next caller
  reads the overwritten prefix.
\<close>

theorem lookups_alias_counterexample:
  "(let (r1, w1) = lookupASNDetails bgpview ''64500'' start;
        w2 = w1\<lparr>heap := (heap w1)[0 := (heap w1 ! 0)\<lparr>Name := ''renamed by a caller''\<rparr>]\<rparr>;
        (r2, w3) = lookupASNDetails bgpview ''64500'' w2;
        (r3, w4) = lookupIPv6 bgpview ''64500'' w3;
        w5 = w4\<lparr>arrays := (arrays w4)[0 := (arrays w4 ! 0)[0 := ''overwritten by a caller'']]\<rparr>;
        (r4, w6) = lookupIPv6 bgpview ''64500'' w5
    in r1 = Returned (Some 0, None) \<and>
       Name (heap w1 ! 0) = ''EXAMPLE-AS'' \<and>
       r2 = Returned (Some 0, None) \<and>
       Name (heap w3 ! 0) = ''renamed by a caller'' \<and>
       requests w3 = requests w1 \<and>
       r3 = Returned (Slice 0, None) \<and>
       elements w4 (Slice 0) = [''2001:db8::/32''] \<and>
       r4 = Returned (Slice 0, None) \<and>
       elements w6 (Slice 0) = [''overwritten by a caller''] \<and>
       requests w6 = requests w4)"
  by (simp add: bgpview_run)

end
